theory Spec2Isabelle
  imports Main
begin

section \<open>Python values, exceptions and the outside world\<close>

text \<open>
  The two source files are \<^verbatim>\<open>src/pg_utils.py\<close> (class \<^verbatim>\<open>PGUtils\<close>) and
  \<^verbatim>\<open>src/server.py\<close> (the two FastAPI handlers). Everything the code does to the
  outside (the psycopg2 driver, the logger, \<^verbatim>\<open>time.sleep\<close>, the file system) is made
  explicit: the driver is a record of functions over an abstract world \<open>'w\<close>, every
  call of it may raise, and every call, log line and sleep is appended to a trace.

  \<open>exn\<close> stands for the subclasses of Python's \<^verbatim>\<open>Exception\<close>, which is what the
  \<^verbatim>\<open>except Exception\<close> clauses of the source catch; the string is \<^verbatim>\<open>str(e)\<close>.
\<close>

datatype exn =
    DatabaseError string
  | AttributeError string
  | TypeError string
  | IndexError string
  | OSError string

text \<open>\<open>squote\<close> is the one-character string of a single quote.\<close>

definition squote :: string where
  "squote = [CHR 0x27]"

fun exn_str :: "exn \<Rightarrow> string" where
  "exn_str (DatabaseError m) = m"
| "exn_str (AttributeError m) = m"
| "exn_str (TypeError m) = m"
| "exn_str (IndexError m) = m"
| "exn_str (OSError m) = m"

text \<open>
  The Python values that travel through \<^verbatim>\<open>exec_sql\<close>: \<^verbatim>\<open>None\<close>, an integer, a string
  (also used for a column holding a JSON document), a tuple and a list. A row is the
  sequence of its column values; \<^verbatim>\<open>fetchall\<close> returns a list of row tuples.
\<close>

datatype pyval =
    PyNone
  | PyInt int
  | PyStr string
  | PyTuple "pyval list"
  | PyList "pyval list"

type_synonym row = "pyval list"
type_synonym conn_id = nat
type_synonym cur_id = nat

datatype event =
    LogError string
  | LogException string
  | Sleep nat
  | EvInitLogging "exn + unit"
  | EvConnect string "exn + conn_id"
  | EvAutocommit conn_id bool "exn + unit"
  | EvCursor conn_id "exn + cur_id"
  | EvExecute cur_id string "exn + unit"
  | EvFetchone cur_id "exn + row option"
  | EvFetchall cur_id "exn + row list"
  | EvCloseCursor cur_id "exn + unit"
  | EvCloseConn conn_id "exn + unit"
  | EvWriteJson string pyval "exn + unit"

text \<open>
  The driver and the other collaborators. \<open>Inl e\<close> is the call raising \<open>e\<close>.
  \<^verbatim>\<open>cursor.execute\<close> of psycopg2 returns \<^verbatim>\<open>None\<close> when it succeeds; \<^verbatim>\<open>fetchone\<close>
  returns a row tuple or \<^verbatim>\<open>None\<close>; \<^verbatim>\<open>fetchall\<close> returns a list of row tuples.
  \<open>drv_init_logging\<close> is the directory creation and \<^verbatim>\<open>LoggingUtil.init_logging\<close> at
  the head of \<^verbatim>\<open>PGUtils.__init__\<close>; \<open>drv_write_json\<close> is
  \<^verbatim>\<open>with open(file_path, 'w') as fp: json.dump(ret_val, fp)\<close>.
\<close>

record 'w driver =
  drv_init_logging :: "'w \<Rightarrow> (exn + unit) \<times> 'w"
  drv_connect :: "string \<Rightarrow> 'w \<Rightarrow> (exn + conn_id) \<times> 'w"
  drv_set_autocommit :: "conn_id \<Rightarrow> bool \<Rightarrow> 'w \<Rightarrow> (exn + unit) \<times> 'w"
  drv_cursor :: "conn_id \<Rightarrow> 'w \<Rightarrow> (exn + cur_id) \<times> 'w"
  drv_execute :: "cur_id \<Rightarrow> string \<Rightarrow> 'w \<Rightarrow> (exn + unit) \<times> 'w"
  drv_fetchone :: "cur_id \<Rightarrow> 'w \<Rightarrow> (exn + row option) \<times> 'w"
  drv_fetchall :: "cur_id \<Rightarrow> 'w \<Rightarrow> (exn + row list) \<times> 'w"
  drv_close_cursor :: "cur_id \<Rightarrow> 'w \<Rightarrow> (exn + unit) \<times> 'w"
  drv_close_conn :: "conn_id \<Rightarrow> 'w \<Rightarrow> (exn + unit) \<times> 'w"
  drv_write_json :: "string \<Rightarrow> pyval \<Rightarrow> 'w \<Rightarrow> (exn + unit) \<times> 'w"

text \<open>The fields of a \<^verbatim>\<open>PGUtils\<close> object, with the world and the trace so far.\<close>

record 'w pgutils =
  conn_str :: string
  conn :: "conn_id option"
  cursor :: "cur_id option"
  auto_commit :: bool
  world :: 'w
  trace :: "event list"

text \<open>
  A statement of the source is a function from the state to a result and a new state;
  \<open>seq\<close> is sequencing (an exception skips the rest), \<open>try_except\<close> is
  \<^verbatim>\<open>try: ... except Exception as e: ...\<close>.
\<close>

definition seq ::
  "(exn + 'a) \<times> 's \<Rightarrow> ('a \<Rightarrow> 's \<Rightarrow> (exn + 'b) \<times> 's) \<Rightarrow> (exn + 'b) \<times> 's" where
  "seq r f = (case r of (Inl e, s) \<Rightarrow> (Inl e, s) | (Inr a, s) \<Rightarrow> f a s)"

definition try_except ::
  "(exn + 'a) \<times> 's \<Rightarrow> (exn \<Rightarrow> 's \<Rightarrow> (exn + 'a) \<times> 's) \<Rightarrow> (exn + 'a) \<times> 's" where
  "try_except r h = (case r of (Inl e, s) \<Rightarrow> h e s | (Inr a, s) \<Rightarrow> (Inr a, s))"

definition call ::
  "('w \<Rightarrow> (exn + 'a) \<times> 'w) \<Rightarrow> (exn + 'a \<Rightarrow> event) \<Rightarrow> 'w pgutils \<Rightarrow> (exn + 'a) \<times> 'w pgutils" where
  "call f ev s =
     (case f (world s) of (r, w') \<Rightarrow> (r, s\<lparr>world := w', trace := trace s @ [ev r]\<rparr>))"

definition log_error :: "string \<Rightarrow> 'w pgutils \<Rightarrow> 'w pgutils" where
  "log_error msg s = s\<lparr>trace := trace s @ [LogError msg]\<rparr>"

definition sleep :: "nat \<Rightarrow> 'w pgutils \<Rightarrow> 'w pgutils" where
  "sleep n s = s\<lparr>trace := trace s @ [Sleep n]\<rparr>"

section \<open>pg\_utils.py: the connection manager\<close>

definition version_sql :: string where
  "version_sql = ''SELECT version()''"

text \<open>Python truth of a fetched row: \<^verbatim>\<open>None\<close> and the empty tuple are false.\<close>

fun row_truthy :: "row option \<Rightarrow> bool" where
  "row_truthy None = False"
| "row_truthy (Some r) = (r \<noteq> [])"

text \<open>
  \<^verbatim>\<open>check_db_connection\<close>, lines 86--116. \<open>ret_val\<close> starts as \<^verbatim>\<open>None\<close> and is a
  \<open>bool option\<close>: the branch \<^verbatim>\<open>if db_version:\<close> has no \<^verbatim>\<open>else\<close>. With
  \<^verbatim>\<open>self.cursor\<close> set, \<open>check_try\<close> is the body of the \<^verbatim>\<open>try\<close>.
\<close>

definition check_try :: "'w driver \<Rightarrow> 'w pgutils \<Rightarrow> (exn + bool option) \<times> 'w pgutils" where
  "check_try d s =
     (case (conn s, cursor s) of
        (Some cn, Some c) \<Rightarrow>
          seq (call (drv_execute d c version_sql) (EvExecute c version_sql) s) (\<lambda>_ s1.
          seq (call (drv_fetchone d c) (EvFetchone c) s1) (\<lambda>db_version s2.
            (Inr (if row_truthy db_version then Some True else None), s2)))
      | _ \<Rightarrow> (Inr (Some False), s))"

definition check_db_connection ::
  "'w driver \<Rightarrow> 'w pgutils \<Rightarrow> (exn + bool option) \<times> 'w pgutils" where
  "check_db_connection d s = try_except (check_try d s) (\<lambda>e s1. (Inr (Some False), s1))"

text \<open>Python truth of \<open>good_conn\<close>.\<close>

definition truthy :: "bool option \<Rightarrow> bool" where
  "truthy g = (g = Some True)"

text \<open>
  \<^verbatim>\<open>get_db_connection\<close>, lines 43--84. \<open>connect_try\<close> is the body of the \<^verbatim>\<open>try\<close>
  (lines 60--79): it either returns from the function or falls through with the new
  \<open>good_conn\<close>. \<open>loop_body\<close> is one iteration of the \<^verbatim>\<open>while\<close>, with the retry notice
  and the sleep of lines 83--84 when the iteration did not return. The loop itself may run
  forever, so it is a partial function: \<open>None\<close> is not returning.
\<close>

datatype flow = Return | Continue "bool option"

definition connect_try ::
  "'w driver \<Rightarrow> bool option \<Rightarrow> 'w pgutils \<Rightarrow> (exn + flow) \<times> 'w pgutils" where
  "connect_try d good_conn s =
     (if \<not> truthy good_conn then
        seq (call (drv_connect d (conn_str s)) (EvConnect (conn_str s)) s) (\<lambda>cn s1.
        seq (call (drv_set_autocommit d cn (auto_commit s1)) (EvAutocommit cn (auto_commit s1))
               (s1\<lparr>conn := Some cn\<rparr>)) (\<lambda>_ s2.
        seq (call (drv_cursor d cn) (EvCursor cn) s2) (\<lambda>c s3.
        seq (check_db_connection d (s3\<lparr>cursor := Some c\<rparr>)) (\<lambda>good s4.
          (Inr (if truthy good then Return else Continue good), s4)))))
      else (Inr Return, s))"

definition retry_notice :: "'w pgutils \<Rightarrow> 'w pgutils" where
  "retry_notice s = sleep 5 (log_error ''DB Connection failed. Retrying...'' s)"

definition loop_body :: "'w driver \<Rightarrow> 'w pgutils \<Rightarrow> (exn + flow) \<times> 'w pgutils" where
  "loop_body d s =
     seq (check_db_connection d s) (\<lambda>good_conn s1.
     seq (try_except (connect_try d good_conn s1) (\<lambda>e s2. (Inr (Continue (Some False)), s2)))
       (\<lambda>fl s2. case fl of
            Return \<Rightarrow> (Inr Return, s2)
          | Continue g \<Rightarrow> (Inr (Continue g), retry_notice s2)))"

partial_function (option) conn_loop ::
  "'w driver \<Rightarrow> bool option \<Rightarrow> 'w pgutils \<Rightarrow> ((exn + unit) \<times> 'w pgutils) option" where
  "conn_loop d good_conn s =
     (if truthy good_conn then Some (Inr (), s)
      else (case loop_body d s of
              (Inl e, s') \<Rightarrow> Some (Inl e, s')
            | (Inr Return, s') \<Rightarrow> Some (Inr (), s')
            | (Inr (Continue g), s') \<Rightarrow> conn_loop d g s'))"

definition get_db_connection ::
  "'w driver \<Rightarrow> 'w pgutils \<Rightarrow> ((exn + unit) \<times> 'w pgutils) option" where
  "get_db_connection d s = conn_loop d (Some False) s"

text \<open>
  \<^verbatim>\<open>__del__\<close>, lines 118--133. When closing the cursor raises, the connection is not
  closed: both closes are in one \<^verbatim>\<open>try\<close>.
\<close>

definition del_try :: "'w driver \<Rightarrow> 'w pgutils \<Rightarrow> (exn + unit) \<times> 'w pgutils" where
  "del_try d s =
     seq (case cursor s of
            Some c \<Rightarrow> call (drv_close_cursor d c) (EvCloseCursor c) s
          | None \<Rightarrow> (Inr (), s)) (\<lambda>_ s1.
       case conn s1 of
         Some cn \<Rightarrow> call (drv_close_conn d cn) (EvCloseConn cn) s1
       | None \<Rightarrow> (Inr (), s1))"

definition del_error_msg :: "exn \<Rightarrow> string" where
  "del_error_msg e = ''Error detected closing cursor or connection. '' @ exn_str e"

definition pg_del :: "'w driver \<Rightarrow> 'w pgutils \<Rightarrow> (exn + unit) \<times> 'w pgutils" where
  "pg_del d s =
     try_except (del_try d s) (\<lambda>e s1. (Inr (), log_error (del_error_msg e) s1))"

section \<open>pg\_utils.py: the query executor\<close>

text \<open>
  \<^verbatim>\<open>exec_sql\<close>, lines 135--168. \<open>exec_try\<close> is the body of the \<^verbatim>\<open>try\<close>;
  \<^verbatim>\<open>self.cursor.execute\<close> on a cursor that is \<^verbatim>\<open>None\<close> raises AttributeError there.
  The sentinels are the Python integers \<open>-1\<close> and \<open>-2\<close>.
\<close>

definition exec_try ::
  "'w driver \<Rightarrow> string \<Rightarrow> bool \<Rightarrow> 'w pgutils \<Rightarrow> (exn + pyval) \<times> 'w pgutils" where
  "exec_try d sql_stmt is_select s =
     (case cursor s of
        None \<Rightarrow> (Inl (AttributeError ('''NoneType' object has no attribute 'execute'' @ squote)), s)
      | Some c \<Rightarrow>
          seq (call (drv_execute d c sql_stmt) (EvExecute c sql_stmt) s) (\<lambda>_ s1.
            if is_select then
              seq (call (drv_fetchall d c) (EvFetchall c) s1) (\<lambda>rows s2.
                (Inr (if length rows = 0 then PyInt (- 1) else PyList (map PyTuple rows)), s2))
            else (Inr PyNone, s1)))"

definition exec_error_msg :: "string \<Rightarrow> exn \<Rightarrow> string" where
  "exec_error_msg sql_stmt e = ''Error detected executing SQL: '' @ sql_stmt @ ''. '' @ exn_str e"

definition exec_sql ::
  "'w driver \<Rightarrow> string \<Rightarrow> bool \<Rightarrow> 'w pgutils \<Rightarrow> ((exn + pyval) \<times> 'w pgutils) option" where
  "exec_sql d sql_stmt is_select s =
     (case get_db_connection d s of
        None \<Rightarrow> None
      | Some (Inl e, s1) \<Rightarrow> Some (Inl e, s1)
      | Some (Inr _, s1) \<Rightarrow>
          Some (try_except (exec_try d sql_stmt is_select s1) (\<lambda>e s2.
                  (Inr (PyInt (- 2)), log_error (exec_error_msg sql_stmt e) s2))))"

text \<open>Python's \<^verbatim>\<open>v[0]\<close>.\<close>

fun subscript0 :: "pyval \<Rightarrow> exn + pyval" where
  "subscript0 PyNone = Inl (TypeError '''NoneType' object is not subscriptable'')"
| "subscript0 (PyInt i) = Inl (TypeError '''int' object is not subscriptable'')"
| "subscript0 (PyStr []) = Inl (IndexError ''string index out of range'')"
| "subscript0 (PyStr (c # cs)) = Inr (PyStr [c])"
| "subscript0 (PyTuple []) = Inl (IndexError ''tuple index out of range'')"
| "subscript0 (PyTuple (v # vs)) = Inr v"
| "subscript0 (PyList []) = Inl (IndexError ''list index out of range'')"
| "subscript0 (PyList (v # vs)) = Inr v"

text \<open>Python's \<^verbatim>\<open>str\<close> of an integer, as the f-string of line 178 formats \<open>limit\<close>.\<close>

fun digits :: "nat \<Rightarrow> string" where
  "digits n =
     (if n < 10 then [''0123456789'' ! n]
      else digits (n div 10) @ [''0123456789'' ! (n mod 10)])"

declare digits.simps [simp del]

definition str_int :: "int \<Rightarrow> string" where
  "str_int i = (if i < 0 then ''-'' @ digits (nat (- i)) else digits (nat i))"

text \<open>\<^verbatim>\<open>get_terria_map_catalog_data\<close> of \<^verbatim>\<open>PGUtils\<close>, lines 170--181.\<close>

definition terria_sql ::
  "string \<Rightarrow> string \<Rightarrow> string \<Rightarrow> string \<Rightarrow> string \<Rightarrow> int \<Rightarrow> string" where
  "terria_sql grid_type event_type instance_name run_date end_date limit =
     ''SELECT public.get_terria_data_json(_grid_type:='' @ grid_type
       @ '', _event_type:='' @ event_type
       @ '', _instance_name:='' @ instance_name
       @ '', _run_date:='' @ run_date
       @ '', _end_date:='' @ end_date
       @ '', _limit:='' @ str_int limit @ '')''"

definition get_terria_map_catalog_data ::
  "'w driver \<Rightarrow> string \<Rightarrow> string \<Rightarrow> string \<Rightarrow> string \<Rightarrow> string \<Rightarrow> int \<Rightarrow> 'w pgutils
     \<Rightarrow> ((exn + pyval) \<times> 'w pgutils) option" where
  "get_terria_map_catalog_data d grid_type event_type instance_name run_date end_date limit s =
     (case exec_sql d (terria_sql grid_type event_type instance_name run_date end_date limit)
             True s of
        None \<Rightarrow> None
      | Some r \<Rightarrow>
          Some (seq r (\<lambda>v s1.
                  (case subscript0 v of Inl e \<Rightarrow> Inl e | Inr v0 \<Rightarrow> subscript0 v0, s1))))"

text \<open>
  \<^verbatim>\<open>__init__\<close>, lines 15--41. The host and the port come from the environment and the
  other three from the caller, which reads them from the environment too: each may be
  \<^verbatim>\<open>None\<close>, which the f-string of line 33 prints as \<open>None\<close>.
\<close>

fun opt_str :: "string option \<Rightarrow> string" where
  "opt_str None = ''None''"
| "opt_str (Some v) = v"

definition pg_init ::
  "'w driver \<Rightarrow> string option \<Rightarrow> string option \<Rightarrow> string option \<Rightarrow> string option
     \<Rightarrow> string option \<Rightarrow> bool \<Rightarrow> 'w \<Rightarrow> event list \<Rightarrow> ((exn + unit) \<times> 'w pgutils) option" where
  "pg_init d host port dbname username password autocommit w tr =
     (let s0 = \<lparr>conn_str = ''host='' @ opt_str host @ '' port='' @ opt_str port
                   @ '' dbname='' @ opt_str dbname @ '' user='' @ opt_str username
                   @ '' password='' @ opt_str password,
                conn = None, cursor = None, auto_commit = autocommit,
                world = w, trace = tr\<rparr>
      in case call (drv_init_logging d) EvInitLogging s0 of
           (Inl e, s1) \<Rightarrow> Some (Inl e, s1)
         | (Inr _, s1) \<Rightarrow> get_db_connection d s1)"

section \<open>server.py: the two endpoints\<close>

text \<open>
  The environment the module reads at import time, and the directory of the module file.
\<close>

record config =
  asgs_db_host :: "string option"
  asgs_db_port :: "string option"
  apsviz_dbname :: "string option"
  apsviz_username :: "string option"
  apsviz_password :: "string option"
  server_dir :: string

text \<open>
  The query parameters of a request; \<open>None\<close> is a parameter the request leaves out.
  \<^verbatim>\<open>/get_ui_data\<close> does not read \<open>q_file_name\<close>.
\<close>

record query =
  q_file_name :: "string option"
  q_grid_type :: "string option"
  q_event_type :: "string option"
  q_instance_name :: "string option"
  q_run_date :: "string option"
  q_end_date :: "string option"
  q_limit :: "int option"

record json_response =
  jr_content :: pyval
  jr_status_code :: int
  jr_media_type :: string

record file_response =
  fr_path :: string
  fr_filename :: string
  fr_media_type :: string
  fr_status_code :: int

text \<open>\<^verbatim>\<open>Query(default=4)\<close> and \<^verbatim>\<open>Query(default='apsviz.json')\<close>.\<close>

definition limit_param :: "query \<Rightarrow> int" where
  "limit_param q = (case q_limit q of None \<Rightarrow> 4 | Some n \<Rightarrow> n)"

definition file_name_param :: "query \<Rightarrow> string" where
  "file_name_param q = (case q_file_name q of None \<Rightarrow> ''apsviz.json'' | Some f \<Rightarrow> f)"

text \<open>
  Lines 88--92 and 136--140: \<^verbatim>\<open>'null' if not x else f"'{x}'"\<close>. \<^verbatim>\<open>None\<close> and the empty
  string are both false in Python.
\<close>

definition sp_arg :: "string option \<Rightarrow> string" where
  "sp_arg x =
     (case x of
        None \<Rightarrow> ''null''
      | Some v \<Rightarrow> if v = [] then ''null'' else squote @ v @ squote)"

text \<open>
  Lines 85--95 (and 144--147): the object is built and the stored procedure is called,
  inside the handler's \<^verbatim>\<open>try\<close>.
\<close>

definition catalog_call ::
  "'w driver \<Rightarrow> config \<Rightarrow> query \<Rightarrow> 'w \<Rightarrow> ((exn + pyval) \<times> 'w pgutils) option" where
  "catalog_call d cfg q w =
     (case pg_init d (asgs_db_host cfg) (asgs_db_port cfg) (apsviz_dbname cfg)
             (apsviz_username cfg) (apsviz_password cfg) True w [] of
        None \<Rightarrow> None
      | Some (Inl e, s) \<Rightarrow> Some (Inl e, s)
      | Some (Inr _, s) \<Rightarrow>
          get_terria_map_catalog_data d (sp_arg (q_grid_type q)) (sp_arg (q_event_type q))
            (sp_arg (q_instance_name q)) (sp_arg (q_run_date q)) (sp_arg (q_end_date q))
            (limit_param q) s)"

definition failure_message :: string where
  "failure_message = ''Exception detected trying to get the terria map catalog data.''"

text \<open>
  \<^verbatim>\<open>GET /get_ui_data\<close>, lines 62--107. The result is the response, the world afterwards
  and the trace of the request; \<open>None\<close> is a request that never gets its response.
\<close>

definition get_ui_data ::
  "'w driver \<Rightarrow> config \<Rightarrow> query \<Rightarrow> 'w \<Rightarrow> (json_response \<times> 'w \<times> event list) option" where
  "get_ui_data d cfg q w =
     (case catalog_call d cfg q w of
        None \<Rightarrow> None
      | Some (Inr ret_val, s) \<Rightarrow>
          Some (\<lparr>jr_content = ret_val, jr_status_code = 200,
                  jr_media_type = ''application/json''\<rparr>, world s, trace s)
      | Some (Inl e, s) \<Rightarrow>
          Some (\<lparr>jr_content = PyStr failure_message, jr_status_code = 500,
                  jr_media_type = ''application/json''\<rparr>,
                world s, trace s @ [LogException failure_message]))"

text \<open>\<^verbatim>\<open>os.path.join\<close> of two components (posixpath).\<close>

definition path_join :: "string \<Rightarrow> string \<Rightarrow> string" where
  "path_join a b =
     (if b \<noteq> [] \<and> hd b = CHR ''/'' then b
      else if a = [] \<or> last a = CHR ''/'' then a @ b
      else a @ ''/'' @ b)"

text \<open>
  \<^verbatim>\<open>FileResponse(path=..., filename=..., media_type=...)\<close> of Starlette: the constructor's
  \<^verbatim>\<open>status_code\<close> parameter has the default 200, and line 161 does not pass it.
\<close>

definition FileResponse :: "string \<Rightarrow> string \<Rightarrow> string \<Rightarrow> file_response" where
  "FileResponse p f m = \<lparr>fr_path = p, fr_filename = f, fr_media_type = m, fr_status_code = 200\<rparr>"

text \<open>
  \<^verbatim>\<open>GET /get_ui_data_file\<close>, lines 110--161. \<open>file_try\<close> is the body of the
  \<^verbatim>\<open>try\<close>. The local variable \<open>status_code\<close> is assigned as in the source; the
  \<^verbatim>\<open>return\<close> of line 161 does not read it.
\<close>

definition file_path :: "config \<Rightarrow> query \<Rightarrow> string" where
  "file_path cfg q = path_join (server_dir cfg) (file_name_param q)"

definition file_try ::
  "'w driver \<Rightarrow> config \<Rightarrow> query \<Rightarrow> 'w \<Rightarrow> ((exn + unit) \<times> 'w pgutils) option" where
  "file_try d cfg q w =
     (case catalog_call d cfg q w of
        None \<Rightarrow> None
      | Some r \<Rightarrow>
          Some (seq r (\<lambda>ret_val s.
                  call (drv_write_json d (file_path cfg q) ret_val)
                    (EvWriteJson (file_path cfg q) ret_val) s)))"

definition get_ui_data_file ::
  "'w driver \<Rightarrow> config \<Rightarrow> query \<Rightarrow> 'w \<Rightarrow> (file_response \<times> 'w \<times> event list) option" where
  "get_ui_data_file d cfg q w =
     (case file_try d cfg q w of
        None \<Rightarrow> None
      | Some (r, s) \<Rightarrow>
          (let status_code = (case r of Inl e \<Rightarrow> 500 | Inr _ \<Rightarrow> (200 :: int));
               tr = (case r of Inl e \<Rightarrow> trace s @ [LogException (exn_str e)] | Inr _ \<Rightarrow> trace s)
           in Some (FileResponse (file_path cfg q) (file_name_param q) ''text/json'',
                    world s, tr)))"

section \<open>A simulated database\<close>

text \<open>
  A small concrete driver, to run the model on: connecting fails \<open>sim_down\<close> more times
  and then succeeds, the health check's \<^verbatim>\<open>fetchone\<close> gives \<open>sim_version\<close>, every other
  statement has the outcome \<open>sim_reply\<close> (an exception is raised by \<^verbatim>\<open>execute\<close>),
  \<^verbatim>\<open>fetchall\<close> raises \<open>sim_fetch_error\<close>, closing the cursor raises
  \<open>sim_close_error\<close> and closing the connection raises \<open>sim_conn_close_error\<close>
  when there is one, and written files are kept in \<open>sim_files\<close>.
  \<open>down_driver\<close> is the same with a database that never accepts a connection.
\<close>

record sim =
  sim_down :: nat
  sim_version :: "row option"
  sim_reply :: "exn + row list"
  sim_fetch_error :: "exn option"
  sim_close_error :: "exn option"
  sim_conn_close_error :: "exn option"
  sim_files :: "(string \<times> pyval) list"

definition sim_driver :: "sim driver" where
  "sim_driver =
     \<lparr>drv_init_logging = (\<lambda>w. (Inr (), w)),
      drv_connect = (\<lambda>cs w.
        if sim_down w = 0 then (Inr 1, w)
        else (Inl (DatabaseError ''connection refused''), w\<lparr>sim_down := sim_down w - 1\<rparr>)),
      drv_set_autocommit = (\<lambda>cn b w. (Inr (), w)),
      drv_cursor = (\<lambda>cn w. (Inr 1, w)),
      drv_execute = (\<lambda>c q w.
        if q = version_sql then (Inr (), w)
        else (case sim_reply w of Inl e \<Rightarrow> (Inl e, w) | Inr rows \<Rightarrow> (Inr (), w))),
      drv_fetchone = (\<lambda>c w. (Inr (sim_version w), w)),
      drv_fetchall = (\<lambda>c w.
        case sim_fetch_error w of
          Some e \<Rightarrow> (Inl e, w)
        | None \<Rightarrow> (case sim_reply w of Inl e \<Rightarrow> (Inl e, w) | Inr rows \<Rightarrow> (Inr rows, w))),
      drv_close_cursor = (\<lambda>c w.
        case sim_close_error w of None \<Rightarrow> (Inr (), w) | Some e \<Rightarrow> (Inl e, w)),
      drv_close_conn = (\<lambda>cn w.
        case sim_conn_close_error w of None \<Rightarrow> (Inr (), w) | Some e \<Rightarrow> (Inl e, w)),
      drv_write_json = (\<lambda>p v w. (Inr (), w\<lparr>sim_files := (p, v) # sim_files w\<rparr>))\<rparr>"


definition sim_world :: "nat \<Rightarrow> (exn + row list) \<Rightarrow> sim" where
  "sim_world n reply =
     \<lparr>sim_down = n, sim_version = Some [PyStr ''PostgreSQL 14.5''], sim_reply = reply,
      sim_fetch_error = None, sim_close_error = None, sim_conn_close_error = None,
      sim_files = []\<rparr>"

definition sim_conn_str :: string where
  "sim_conn_str = ''host=db port=5432 dbname=apsviz user=u password=p''"

text \<open>A new object, as \<^verbatim>\<open>__init__\<close> leaves it before it connects.\<close>

definition new_pg :: "'w \<Rightarrow> 'w pgutils" where
  "new_pg w =
     \<lparr>conn_str = sim_conn_str, conn = None, cursor = None, auto_commit = True,
      world = w, trace = []\<rparr>"

text \<open>The object after a first connection that succeeded at once.\<close>

definition sim_connected :: "sim \<Rightarrow> sim pgutils" where
  "sim_connected w =
     \<lparr>conn_str = sim_conn_str, conn = Some 1, cursor = Some 1, auto_commit = True, world = w,
      trace = [EvConnect sim_conn_str (Inr 1), EvAutocommit 1 True (Inr ()), EvCursor 1 (Inr 1),
               EvExecute 1 version_sql (Inr ()),
               EvFetchone 1 (Inr (Some [PyStr ''PostgreSQL 14.5'']))]\<rparr>"

text \<open>A configuration, and the request that leaves every parameter out.\<close>

definition sim_cfg :: config where
  "sim_cfg =
     \<lparr>asgs_db_host = Some ''db'', asgs_db_port = Some ''5432'', apsviz_dbname = Some ''apsviz'',
      apsviz_username = Some ''u'', apsviz_password = Some ''p'', server_dir = ''/app/src''\<rparr>"

definition no_filters :: query where
  "no_filters =
     \<lparr>q_file_name = None, q_grid_type = None, q_event_type = None, q_instance_name = None,
      q_run_date = None, q_end_date = None, q_limit = None\<rparr>"

text \<open>A database on which \<^verbatim>\<open>fetchall\<close> raises after a statement that ran.\<close>

definition fetch_fails :: sim where
  "fetch_fails =
     (sim_world 0 (Inr [[PyInt 1]]))\<lparr>sim_fetch_error := Some (DatabaseError ''no results to fetch'')\<rparr>"

text \<open>
  A database whose health check fetches no row, one on which closing the cursor raises and
  one on which closing the connection raises.
\<close>

definition no_version :: sim where
  "no_version = (sim_world 0 (Inr []))\<lparr>sim_version := None\<rparr>"

definition close_fails :: sim where
  "close_fails =
     (sim_world 0 (Inr []))\<lparr>sim_close_error := Some (DatabaseError ''cursor already closed'')\<rparr>"

definition conn_close_fails :: sim where
  "conn_close_fails =
     (sim_world 0 (Inr []))
       \<lparr>sim_conn_close_error := Some (DatabaseError ''connection already closed'')\<rparr>"

text \<open>
  A database on which the stored procedure call raises, with a file left by an earlier
  request; and the text of the call when every parameter is left out.
\<close>

definition stale_file :: sim where
  "stale_file =
     (sim_world 0 (Inl (DatabaseError ''function does not exist'')))
       \<lparr>sim_files := [(''/app/src/apsviz.json'', PyStr ''old'')]\<rparr>"

definition null_call :: string where
  "null_call = ''SELECT public.get_terria_data_json(_grid_type:=null, _event_type:=null, _instance_name:=null, _run_date:=null, _end_date:=null, _limit:=4)''"

text \<open>
  A database on which the stored procedure call gives one row with one column, and the
  trace of a request served from it.
\<close>

definition one_row :: sim where
  "one_row = sim_world 0 (Inr [[PyStr ''[]'']])"

definition served_trace :: "event list" where
  "served_trace =
     [EvInitLogging (Inr ()),
      EvConnect sim_conn_str (Inr 1), EvAutocommit 1 True (Inr ()), EvCursor 1 (Inr 1),
      EvExecute 1 version_sql (Inr ()),
      EvFetchone 1 (Inr (Some [PyStr ''PostgreSQL 14.5''])),
      EvExecute 1 version_sql (Inr ()),
      EvFetchone 1 (Inr (Some [PyStr ''PostgreSQL 14.5''])),
      EvExecute 1 null_call (Inr ()),
      EvFetchall 1 (Inr [[PyStr ''[]'']])]"

section \<open>Notions the properties are stated with\<close>

text \<open>
  The object is healthy at a point of the trace when the last two things that happened are
  the health check's round trip on the object's own cursor: \<^verbatim>\<open>SELECT version()\<close>
  executed without an exception and \<^verbatim>\<open>fetchone\<close> giving a row that is true in Python.
\<close>

definition last_two :: "'a list \<Rightarrow> 'a list" where
  "last_two xs = drop (length xs - 2) xs"

fun fetched_row :: "event \<Rightarrow> row" where
  "fetched_row (EvFetchone c (Inr (Some r))) = r"
| "fetched_row ev = []"

definition healthy_at_return :: "'w pgutils \<Rightarrow> bool" where
  "healthy_at_return s =
     (case cursor s of
        None \<Rightarrow> False
      | Some c \<Rightarrow>
          conn s \<noteq> None \<and> trace s \<noteq> [] \<and> fetched_row (last (trace s)) \<noteq> [] \<and>
          last_two (trace s) =
            [EvExecute c version_sql (Inr ()),
             EvFetchone c (Inr (Some (fetched_row (last (trace s)))))])"

text \<open>
  \<open>after_retries d s n\<close> is the state after \<open>n\<close> iterations of the loop of
  \<^verbatim>\<open>get_db_connection\<close>; \<open>returns_in d s n\<close> says that iteration \<open>n\<close> (counted from
  0) is one that returns.
\<close>

fun is_sleep :: "event \<Rightarrow> bool" where
  "is_sleep (Sleep n) = True"
| "is_sleep ev = False"



text \<open>
  The statements a trace has executed, in order; and a step that executes nothing but
  health checks.
\<close>

fun stmt_of :: "event \<Rightarrow> string list" where
  "stmt_of (EvExecute c q out) = [q]"
| "stmt_of ev = []"

definition executed :: "event list \<Rightarrow> string list" where
  "executed tr = concat (map stmt_of tr)"

definition only_adds_checks :: "'w pgutils \<Rightarrow> 'w pgutils \<Rightarrow> bool" where
  "only_adds_checks s s' =
     (set (executed (trace s')) \<subseteq> insert version_sql (set (executed (trace s))))"

section \<open>Lemmas on the connection manager\<close>

lemma seq_Inl [simp]: "seq (Inl e, s) f = (Inl e, s)" by (simp add: seq_def)
lemma seq_Inr [simp]: "seq (Inr a, s) f = f a s" by (simp add: seq_def)
lemma try_Inl [simp]: "try_except (Inl e, s) h = h e s" by (simp add: try_except_def)
lemma try_Inr [simp]: "try_except (Inr a, s) h = (Inr a, s)" by (simp add: try_except_def)

lemma check_cases:
  "check_db_connection d s = (r, s') \<Longrightarrow>
     (r = Inr (Some False) \<and> s' = s \<and> (conn s = None \<or> cursor s = None))
   \<or> (\<exists>c cn e w'. conn s = Some cn \<and> cursor s = Some c \<and> r = Inr (Some False)
         \<and> drv_execute d c version_sql (world s) = (Inl e, w')
         \<and> s' = s\<lparr>world := w', trace := trace s @ [EvExecute c version_sql (Inl e)]\<rparr>)
   \<or> (\<exists>c cn e w1 w2. conn s = Some cn \<and> cursor s = Some c \<and> r = Inr (Some False)
         \<and> drv_execute d c version_sql (world s) = (Inr (), w1)
         \<and> drv_fetchone d c w1 = (Inl e, w2)
         \<and> s' = s\<lparr>world := w2, trace := trace s @ [EvExecute c version_sql (Inr ()), EvFetchone c (Inl e)]\<rparr>)
   \<or> (\<exists>c cn v w1 w2. conn s = Some cn \<and> cursor s = Some c
         \<and> r = Inr (if row_truthy v then Some True else None)
         \<and> drv_execute d c version_sql (world s) = (Inr (), w1)
         \<and> drv_fetchone d c w1 = (Inr v, w2)
         \<and> s' = s\<lparr>world := w2, trace := trace s @ [EvExecute c version_sql (Inr ()), EvFetchone c (Inr v)]\<rparr>)"
  unfolding check_db_connection_def check_try_def call_def seq_def try_except_def
  by (auto split: option.splits prod.splits sum.splits)

lemma check_Inr: "\<exists>g. fst (check_db_connection d s) = Inr g"
  using check_cases [of d s "fst (check_db_connection d s)" "snd (check_db_connection d s)"]
  by auto

lemma last_two_app [simp]: "last_two (xs @ [a, b]) = [a, b]"
  by (simp add: last_two_def)

lemma row_truthy_fetched: "row_truthy v \<Longrightarrow> \<exists>r. v = Some r \<and> r \<noteq> []"
  by (cases v) auto

lemma check_True_healthy:
  assumes "check_db_connection d s = (Inr (Some True), s')"
  shows "healthy_at_return s'"
  using check_cases [OF assms]
  by (auto simp: healthy_at_return_def split: if_splits dest!: row_truthy_fetched)

lemma check_sleeps:
  assumes "check_db_connection d s = (r, s')"
  shows "filter is_sleep (trace s') = filter is_sleep (trace s)"
  using check_cases [OF assms] by auto

lemma connect_try_cases:
  "connect_try d g s = (r, s') \<Longrightarrow> filter is_sleep (trace s') = filter is_sleep (trace s)
     \<and> (r = Inr Return \<longrightarrow> healthy_at_return s' \<or> (truthy g \<and> s' = s))
     \<and> (\<forall>g'. r = Inr (Continue g') \<longrightarrow> \<not> truthy g')"
  unfolding connect_try_def
  apply (clarsimp simp: call_def seq_def split: if_splits prod.splits sum.splits)
  apply (auto dest: check_sleeps check_True_healthy simp: truthy_def)
  done



lemma retry_notice_trace [simp]:
  "trace (retry_notice s) = trace s @ [LogError ''DB Connection failed. Retrying...'', Sleep 5]"
  by (simp add: retry_notice_def sleep_def log_error_def)

lemma loop_body_eq:
  "check_db_connection d s = (Inr good, s1) \<Longrightarrow> connect_try d good s1 = (r2, s2) \<Longrightarrow>
     loop_body d s =
       (case r2 of
          Inl e \<Rightarrow> (Inr (Continue (Some False)), retry_notice s2)
        | Inr Return \<Rightarrow> (Inr Return, s2)
        | Inr (Continue g) \<Rightarrow> (Inr (Continue g), retry_notice s2))"
  by (simp add: loop_body_def split: sum.splits flow.splits)

lemma loop_body_cases:
  assumes "loop_body d s = (r, s')"
  shows "(r = Inr Return \<and> healthy_at_return s'
            \<and> filter is_sleep (trace s') = filter is_sleep (trace s))
       \<or> (\<exists>g. r = Inr (Continue g) \<and> \<not> truthy g
            \<and> filter is_sleep (trace s') = filter is_sleep (trace s) @ [Sleep 5]
            \<and> last_two (trace s') = [LogError ''DB Connection failed. Retrying...'', Sleep 5])"
proof -
  obtain good s1 where c1: "check_db_connection d s = (Inr good, s1)"
    using check_Inr [of d s] by (cases "check_db_connection d s") auto
  obtain r2 s2 where c2: "connect_try d good s1 = (r2, s2)"
    by (cases "connect_try d good s1") auto
  have k1: "filter is_sleep (trace s1) = filter is_sleep (trace s)"
    by (rule check_sleeps [OF c1])
  from connect_try_cases [OF c2]
  have k2: "filter is_sleep (trace s2) = filter is_sleep (trace s1)"
    and k3: "r2 = Inr Return \<Longrightarrow> healthy_at_return s2 \<or> (truthy good \<and> s2 = s1)"
    and k4: "\<And>g'. r2 = Inr (Continue g') \<Longrightarrow> \<not> truthy g'"
    by blast+
  note eq = loop_body_eq [OF c1 c2]
  show ?thesis
  proof (cases r2)
    case (Inl e)
    with eq assms have "r = Inr (Continue (Some False))" "s' = retry_notice s2" by simp_all
    then show ?thesis using k1 k2 by (simp add: truthy_def)
  next
    case (Inr fl)
    show ?thesis
    proof (cases fl)
      case Return
      with Inr eq assms have rs: "r = Inr Return" "s' = s2" by simp_all
      have "healthy_at_return s2"
      proof (cases "truthy good")
        case True
        then have "good = Some True" by (simp add: truthy_def)
        with c1 have "healthy_at_return s1" by (simp add: check_True_healthy)
        with k3 Inr Return show ?thesis by blast
      next
        case False
        with k3 Inr Return show ?thesis by blast
      qed
      with rs k1 k2 show ?thesis by simp
    next
      case (Continue g)
      with Inr eq assms have "r = Inr (Continue g)" "s' = retry_notice s2" by simp_all
      moreover have "\<not> truthy g" using k4 Inr Continue by simp
      ultimately show ?thesis using k1 k2 by simp
    qed
  qed
qed


lemma loop_body_split:
  assumes "loop_body d s = (r, s')"
  obtains (ret) "r = Inr Return" "healthy_at_return s'"
  | (cont) g where "r = Inr (Continue g)" "\<not> truthy g"
  using loop_body_cases [OF assms] by blast

lemma conn_loop_unfold:
  "\<not> truthy g \<Longrightarrow> loop_body d s = (r1, s1) \<Longrightarrow>
     conn_loop d g s =
       (case r1 of Inl e \<Rightarrow> Some (Inl e, s1) | Inr Return \<Rightarrow> Some (Inr (), s1)
        | Inr (Continue g') \<Rightarrow> conn_loop d g' s1)"
  by (subst conn_loop.simps) simp

lemma conn_loop_result_aux:
  assumes "conn_loop d g s = Some y"
  shows "fst y = Inr () \<and> (truthy g \<and> snd y = s \<or> healthy_at_return (snd y))"
proof (rule conn_loop.raw_induct
    [where P = "\<lambda>d g s y. fst y = Inr () \<and> (truthy g \<and> snd y = s \<or> healthy_at_return (snd y))",
     OF _ assms])
  fix f :: "'a driver \<Rightarrow> bool option \<Rightarrow> 'a pgutils \<Rightarrow> ((exn + unit) \<times> 'a pgutils) option"
    and d g s y
  assume IH: "\<And>d g s y. f d g s = Some y \<Longrightarrow>
      fst y = Inr () \<and> (truthy g \<and> snd y = s \<or> healthy_at_return (snd y))"
    and eq: "(if truthy g then Some (Inr (), s)
      else (case loop_body d s of
              (Inl e, s') \<Rightarrow> Some (Inl e, s')
            | (Inr Return, s') \<Rightarrow> Some (Inr (), s')
            | (Inr (Continue g), s') \<Rightarrow> f d g s')) = Some y"
  show "fst y = Inr () \<and> (truthy g \<and> snd y = s \<or> healthy_at_return (snd y))"
  proof (cases "truthy g")
    case True
    with eq have "y = (Inr (), s)" by simp
    with True show ?thesis by simp
  next
    case False
    obtain r1 s1 where lb: "loop_body d s = (r1, s1)" by (cases "loop_body d s") auto
    from lb show ?thesis
    proof (cases rule: loop_body_split)
      case ret
      with eq False lb have "y = (Inr (), s1)" by simp
      with ret show ?thesis by simp
    next
      case (cont g')
      with eq False lb have "f d g' s1 = Some y" by simp
      from IH [OF this] cont show ?thesis by simp
    qed
  qed
qed

lemma conn_loop_result:
  "conn_loop d g s = Some (r, s') \<Longrightarrow> r = Inr () \<and> (truthy g \<and> s' = s \<or> healthy_at_return s')"
  using conn_loop_result_aux [of d g s "(r, s')"] by simp







section \<open>Lemmas on the query executor\<close>

lemma sim_loop_body:
  "sim_down w = 0 \<Longrightarrow> sim_version w = Some [PyStr ''PostgreSQL 14.5''] \<Longrightarrow>
     loop_body sim_driver (new_pg w) = (Inr Return, sim_connected w)"
  by (simp add: loop_body_def check_db_connection_def check_try_def connect_try_def call_def
      sim_driver_def new_pg_def sim_connected_def truthy_def)

lemma get_db_connection_first:
  assumes "loop_body d s = (Inr Return, s1)"
  shows "get_db_connection d s = Some (Inr (), s1)"
proof -
  have "\<not> truthy (Some False)" by (simp add: truthy_def)
  from conn_loop_unfold [OF this assms] show ?thesis by (simp add: get_db_connection_def)
qed

lemma sim_get_db_connection:
  "sim_down w = 0 \<Longrightarrow> sim_version w = Some [PyStr ''PostgreSQL 14.5''] \<Longrightarrow>
     get_db_connection sim_driver (new_pg w) = Some (Inr (), sim_connected w)"
  by (rule get_db_connection_first [OF sim_loop_body])

lemma get_db_connection_result:
  assumes "get_db_connection d s = Some (r, s1)"
  shows "r = Inr () \<and> healthy_at_return s1"
  using conn_loop_result [of d "Some False" s r s1] assms
  by (simp add: get_db_connection_def truthy_def)

lemma healthy_cursor: "healthy_at_return s \<Longrightarrow> \<exists>c. cursor s = Some c"
  by (cases "cursor s") (simp_all add: healthy_at_return_def)

lemma exec_tail_trace:
  assumes "cursor s1 = Some c"
    and "try_except (exec_try d stmt sel s1)
           (\<lambda>e s2. (Inr (PyInt (- 2)), log_error (exec_error_msg stmt e) s2)) = (r, s')"
  shows "\<exists>out post. trace s' = trace s1 @ EvExecute c stmt out # post"
  using assms
  unfolding exec_try_def call_def seq_def try_except_def log_error_def
  by (auto split: prod.splits sum.splits if_splits)

lemma exec_sql_unfold:
  "get_db_connection d s = Some (Inr (), s1) \<Longrightarrow>
     exec_sql d stmt sel s =
       Some (try_except (exec_try d stmt sel s1)
               (\<lambda>e s2. (Inr (PyInt (- 2)), log_error (exec_error_msg stmt e) s2)))"
  by (simp add: exec_sql_def)

lemma exec_sql_Some:
  assumes "exec_sql d stmt sel s = Some y"
  shows "\<exists>s1. get_db_connection d s = Some (Inr (), s1) \<and> healthy_at_return s1"
proof (cases "get_db_connection d s")
  case None
  with assms show ?thesis by (simp add: exec_sql_def)
next
  case (Some x)
  obtain r0 s1 where x: "x = (r0, s1)" by (cases x)
  with Some get_db_connection_result [of d s r0 s1] show ?thesis by simp
qed

lemma sim_exec_sql:
  "sim_down w = 0 \<Longrightarrow> sim_version w = Some [PyStr ''PostgreSQL 14.5''] \<Longrightarrow>
   exec_sql sim_driver q sel (new_pg w) =
     Some (try_except (exec_try sim_driver q sel (sim_connected w))
             (\<lambda>e s2. (Inr (PyInt (- 2)), log_error (exec_error_msg q e) s2)))"
  by (rule exec_sql_unfold [OF sim_get_db_connection])

lemma exec_try_execute_raises:
  "cursor s1 = Some c \<Longrightarrow> drv_execute d c q (world s1) = (Inl e, w1) \<Longrightarrow>
     exec_try d q sel s1 = (Inl e, s1\<lparr>world := w1, trace := trace s1 @ [EvExecute c q (Inl e)]\<rparr>)"
  by (simp add: exec_try_def call_def)

lemma exec_try_fetchall_raises:
  "cursor s1 = Some c \<Longrightarrow> drv_execute d c q (world s1) = (Inr (), w1) \<Longrightarrow>
   drv_fetchall d c w1 = (Inl e, w2) \<Longrightarrow>
     exec_try d q True s1 =
       (Inl e, s1\<lparr>world := w2, trace := trace s1 @ [EvExecute c q (Inr ()), EvFetchall c (Inl e)]\<rparr>)"
  by (simp add: exec_try_def call_def)

lemma exec_try_fetchall_rows:
  "cursor s1 = Some c \<Longrightarrow> drv_execute d c q (world s1) = (Inr (), w1) \<Longrightarrow>
   drv_fetchall d c w1 = (Inr rows, w2) \<Longrightarrow>
     exec_try d q True s1 =
       (Inr (if length rows = 0 then PyInt (- 1) else PyList (map PyTuple rows)),
        s1\<lparr>world := w2, trace := trace s1 @ [EvExecute c q (Inr ()), EvFetchall c (Inr rows)]\<rparr>)"
  by (simp add: exec_try_def call_def)

lemma exec_sql_never_raises: "exec_sql d q sel s \<noteq> Some (Inl e, s')"
proof
  assume a: "exec_sql d q sel s = Some (Inl e, s')"
  from exec_sql_Some [OF a] obtain s1 where g: "get_db_connection d s = Some (Inr (), s1)"
    by blast
  from a show False
    unfolding exec_sql_unfold [OF g] try_except_def
    by (auto split: prod.splits sum.splits)
qed

section \<open>The query executor\<close>

text \<open>
  Claim C2. For every statement text, an exception raised while the statement is executed
  or while its rows are fetched is caught by \<^verbatim>\<open>exec_sql\<close>: the statement text and the
  exception are logged and the result is the sentinel \<open>-2\<close>; and whatever happens,
  \<^verbatim>\<open>exec_sql\<close> never hands an exception to its caller. \<open>s1\<close> is the object as
  \<^verbatim>\<open>get_db_connection\<close> leaves it and \<open>c\<close> its cursor.
\<close>

theorem exec_sql_exception_is_minus_2:
  "(\<forall>e' s'. exec_sql d sql_stmt is_select s \<noteq> Some (Inl e', s')) \<and>
   (get_db_connection d s = Some (Inr (), s1) \<and> cursor s1 = Some c \<longrightarrow>
      (drv_execute d c sql_stmt (world s1) = (Inl e, w1) \<longrightarrow>
         exec_sql d sql_stmt is_select s =
           Some (Inr (PyInt (- 2)),
                 s1\<lparr>world := w1,
                    trace := trace s1 @ [EvExecute c sql_stmt (Inl e),
                                         LogError (exec_error_msg sql_stmt e)]\<rparr>)) \<and>
      (drv_execute d c sql_stmt (world s1) = (Inr (), w1) \<and> drv_fetchall d c w1 = (Inl e, w2) \<longrightarrow>
         exec_sql d sql_stmt True s =
           Some (Inr (PyInt (- 2)),
                 s1\<lparr>world := w2,
                    trace := trace s1 @ [EvExecute c sql_stmt (Inr ()), EvFetchall c (Inl e),
                                         LogError (exec_error_msg sql_stmt e)]\<rparr>)))"
proof (intro conjI impI allI)
  fix e' s'
  show "exec_sql d sql_stmt is_select s \<noteq> Some (Inl e', s')" by (rule exec_sql_never_raises)
next
  assume g: "get_db_connection d s = Some (Inr (), s1) \<and> cursor s1 = Some c"
    and x: "drv_execute d c sql_stmt (world s1) = (Inl e, w1)"
  from g have g1: "get_db_connection d s = Some (Inr (), s1)" and c: "cursor s1 = Some c"
    by simp_all
  show "exec_sql d sql_stmt is_select s =
           Some (Inr (PyInt (- 2)),
                 s1\<lparr>world := w1,
                    trace := trace s1 @ [EvExecute c sql_stmt (Inl e),
                                         LogError (exec_error_msg sql_stmt e)]\<rparr>)"
    unfolding exec_sql_unfold [OF g1] exec_try_execute_raises [OF c x]
    by (simp add: log_error_def)
next
  assume g: "get_db_connection d s = Some (Inr (), s1) \<and> cursor s1 = Some c"
    and x: "drv_execute d c sql_stmt (world s1) = (Inr (), w1) \<and> drv_fetchall d c w1 = (Inl e, w2)"
  from g have g1: "get_db_connection d s = Some (Inr (), s1)" and c: "cursor s1 = Some c"
    by simp_all
  from x have x1: "drv_execute d c sql_stmt (world s1) = (Inr (), w1)"
    and x2: "drv_fetchall d c w1 = (Inl e, w2)" by simp_all
  show "exec_sql d sql_stmt True s =
           Some (Inr (PyInt (- 2)),
                 s1\<lparr>world := w2,
                    trace := trace s1 @ [EvExecute c sql_stmt (Inr ()), EvFetchall c (Inl e),
                                         LogError (exec_error_msg sql_stmt e)]\<rparr>)"
    unfolding exec_sql_unfold [OF g1] exec_try_fetchall_raises [OF c x1 x2]
    by (simp add: log_error_def)
qed

theorem exec_sql_exception_is_minus_2_witness:
  "exec_sql sim_driver ''SELEC 1'' False (new_pg (sim_world 0 (Inl (DatabaseError ''syntax error'')))) =
     Some (Inr (PyInt (- 2)),
           (sim_connected (sim_world 0 (Inl (DatabaseError ''syntax error''))))
             \<lparr>world := sim_world 0 (Inl (DatabaseError ''syntax error'')),
              trace := trace (sim_connected (sim_world 0 (Inl (DatabaseError ''syntax error''))))
                 @ [EvExecute 1 ''SELEC 1'' (Inl (DatabaseError ''syntax error'')),
                    LogError ''Error detected executing SQL: SELEC 1. syntax error'']\<rparr>)
   \<and> exec_sql sim_driver ''SELECT 1'' True (new_pg fetch_fails) =
     Some (Inr (PyInt (- 2)),
           (sim_connected fetch_fails)
             \<lparr>world := fetch_fails,
              trace := trace (sim_connected fetch_fails)
                 @ [EvExecute 1 ''SELECT 1'' (Inr ()),
                    EvFetchall 1 (Inl (DatabaseError ''no results to fetch'')),
                    LogError ''Error detected executing SQL: SELECT 1. no results to fetch'']\<rparr>)"
proof -
  let ?wa = "sim_world 0 (Inl (DatabaseError ''syntax error''))"
  have a1: "get_db_connection sim_driver (new_pg ?wa) = Some (Inr (), sim_connected ?wa)"
    by (rule sim_get_db_connection) (simp_all add: sim_world_def)
  have a2: "cursor (sim_connected ?wa) = Some 1" by (simp add: sim_connected_def)
  have a3: "drv_execute sim_driver 1 ''SELEC 1'' (world (sim_connected ?wa))
              = (Inl (DatabaseError ''syntax error''), ?wa)"
    by (simp add: sim_driver_def sim_connected_def sim_world_def version_sql_def)
  have b1: "get_db_connection sim_driver (new_pg fetch_fails) = Some (Inr (), sim_connected fetch_fails)"
    by (rule sim_get_db_connection) (simp_all add: sim_world_def fetch_fails_def)
  have b2: "cursor (sim_connected fetch_fails) = Some 1" by (simp add: sim_connected_def)
  have b3: "drv_execute sim_driver 1 ''SELECT 1'' (world (sim_connected fetch_fails))
              = (Inr (), fetch_fails)"
    by (simp add: sim_driver_def sim_connected_def sim_world_def fetch_fails_def version_sql_def)
  have b4: "drv_fetchall sim_driver 1 fetch_fails
              = (Inl (DatabaseError ''no results to fetch''), fetch_fails)"
    by (simp add: sim_driver_def sim_world_def fetch_fails_def)
  have A: "exec_sql sim_driver ''SELEC 1'' False (new_pg ?wa) =
     Some (Inr (PyInt (- 2)),
           (sim_connected ?wa)
             \<lparr>world := ?wa,
              trace := trace (sim_connected ?wa)
                 @ [EvExecute 1 ''SELEC 1'' (Inl (DatabaseError ''syntax error'')),
                    LogError (exec_error_msg ''SELEC 1'' (DatabaseError ''syntax error''))]\<rparr>)"
    using exec_sql_exception_is_minus_2
      [of sim_driver "''SELEC 1''" False "new_pg ?wa" "sim_connected ?wa" 1
          "DatabaseError ''syntax error''" ?wa]
      a1 a2 a3 by blast
  have B: "exec_sql sim_driver ''SELECT 1'' True (new_pg fetch_fails) =
     Some (Inr (PyInt (- 2)),
           (sim_connected fetch_fails)
             \<lparr>world := fetch_fails,
              trace := trace (sim_connected fetch_fails)
                 @ [EvExecute 1 ''SELECT 1'' (Inr ()),
                    EvFetchall 1 (Inl (DatabaseError ''no results to fetch'')),
                    LogError (exec_error_msg ''SELECT 1'' (DatabaseError ''no results to fetch''))]\<rparr>)"
    using exec_sql_exception_is_minus_2
      [of sim_driver "''SELECT 1''" True "new_pg fetch_fails" "sim_connected fetch_fails" 1
          "DatabaseError ''no results to fetch''" fetch_fails fetch_fails]
      b1 b2 b3 b4 by blast
  from A B show ?thesis by (simp add: exec_error_msg_def)
qed

text \<open>
  Claim C3. For a read statement (\<open>is_select\<close> true) that is executed without an
  exception and whose \<^verbatim>\<open>fetchall\<close> gives no row, \<^verbatim>\<open>exec_sql\<close> returns the sentinel
  \<open>-1\<close>, which is neither the empty list nor the sentinel \<open>-2\<close> of an error.
\<close>

theorem exec_sql_empty_is_minus_1:
  assumes "get_db_connection d s = Some (Inr (), s1)" and "cursor s1 = Some c"
    and "drv_execute d c sql_stmt (world s1) = (Inr (), w1)"
    and "drv_fetchall d c w1 = (Inr [], w2)"
  shows "exec_sql d sql_stmt True s =
           Some (Inr (PyInt (- 1)),
                 s1\<lparr>world := w2,
                    trace := trace s1 @ [EvExecute c sql_stmt (Inr ()), EvFetchall c (Inr [])]\<rparr>)
         \<and> PyInt (- 1) \<noteq> PyInt (- 2) \<and> PyInt (- 1) \<noteq> PyList []"
  unfolding exec_sql_unfold [OF assms(1)] exec_try_fetchall_rows [OF assms(2,3,4)]
  by simp

theorem exec_sql_empty_is_minus_1_witness:
  "exec_sql sim_driver ''SELECT 1 WHERE false'' True (new_pg (sim_world 0 (Inr []))) =
     Some (Inr (PyInt (- 1)),
           (sim_connected (sim_world 0 (Inr [])))
             \<lparr>world := sim_world 0 (Inr []),
              trace := trace (sim_connected (sim_world 0 (Inr [])))
                 @ [EvExecute 1 ''SELECT 1 WHERE false'' (Inr ()), EvFetchall 1 (Inr [])]\<rparr>)
   \<and> PyInt (- 1) \<noteq> PyInt (- 2) \<and> PyInt (- 1) \<noteq> PyList []"
proof -
  have h1: "get_db_connection sim_driver (new_pg (sim_world 0 (Inr [])))
              = Some (Inr (), sim_connected (sim_world 0 (Inr [])))"
    by (rule sim_get_db_connection) (simp_all add: sim_world_def)
  have h2: "cursor (sim_connected (sim_world 0 (Inr []))) = Some 1"
    by (simp add: sim_connected_def)
  have h3: "drv_execute sim_driver 1 ''SELECT 1 WHERE false''
              (world (sim_connected (sim_world 0 (Inr [])))) = (Inr (), sim_world 0 (Inr []))"
    by (simp add: sim_driver_def sim_connected_def sim_world_def version_sql_def)
  have h4: "drv_fetchall sim_driver 1 (sim_world 0 (Inr [])) = (Inr [], sim_world 0 (Inr []))"
    by (simp add: sim_driver_def sim_world_def)
  from exec_sql_empty_is_minus_1 [OF h1 h2 h3 h4] show ?thesis .
qed

text \<open>
  Claim C6. Whenever \<^verbatim>\<open>exec_sql\<close> returns, the statement was executed on the cursor of
  the object as \<^verbatim>\<open>get_db_connection\<close> left it, and that object was healthy: the last
  thing that happened before the statement is a health check that succeeded on that very
  cursor, whether it is the cursor the object had or the one \<^verbatim>\<open>get_db_connection\<close> has
  just put in its place. No statement is executed on a pair that a check has found dead.
\<close>

theorem exec_sql_on_checked_cursor:
  assumes "exec_sql d sql_stmt is_select s = Some (r, s')"
  shows "\<exists>s1 c out post.
           get_db_connection d s = Some (Inr (), s1) \<and> healthy_at_return s1 \<and>
           cursor s1 = Some c \<and> trace s' = trace s1 @ EvExecute c sql_stmt out # post"
proof -
  from exec_sql_Some [OF assms] obtain s1
    where g: "get_db_connection d s = Some (Inr (), s1)" and h: "healthy_at_return s1" by blast
  from healthy_cursor [OF h] obtain c where c: "cursor s1 = Some c" ..
  from assms exec_sql_unfold [OF g]
  have "try_except (exec_try d sql_stmt is_select s1)
           (\<lambda>e s2. (Inr (PyInt (- 2)), log_error (exec_error_msg sql_stmt e) s2)) = (r, s')"
    by simp
  from exec_tail_trace [OF c this] obtain out post
    where "trace s' = trace s1 @ EvExecute c sql_stmt out # post" by blast
  with g h c show ?thesis by blast
qed

theorem exec_sql_on_checked_cursor_witness:
  "\<exists>r s'. exec_sql sim_driver ''SELECT 1'' True (new_pg (sim_world 0 (Inr [[PyInt 1]]))) = Some (r, s')
     \<and> (\<exists>s1 c out post.
           get_db_connection sim_driver (new_pg (sim_world 0 (Inr [[PyInt 1]]))) = Some (Inr (), s1)
           \<and> healthy_at_return s1 \<and> cursor s1 = Some c
           \<and> trace s' = trace s1 @ EvExecute c ''SELECT 1'' out # post)"
proof -
  have "exec_sql sim_driver ''SELECT 1'' True (new_pg (sim_world 0 (Inr [[PyInt 1]]))) \<noteq> None"
    by (subst sim_exec_sql) (simp_all add: sim_world_def)
  then obtain r s' where e:
    "exec_sql sim_driver ''SELECT 1'' True (new_pg (sim_world 0 (Inr [[PyInt 1]]))) = Some (r, s')"
    by (metis option.exhaust surj_pair)
  from exec_sql_on_checked_cursor [OF e] e show ?thesis by blast
qed

section \<open>The endpoints\<close>

lemma catalog_call_args:
  assumes "sp_arg (q_grid_type q) = sp_arg (q_grid_type q')"
    and "sp_arg (q_event_type q) = sp_arg (q_event_type q')"
    and "sp_arg (q_instance_name q) = sp_arg (q_instance_name q')"
    and "sp_arg (q_run_date q) = sp_arg (q_run_date q')"
    and "sp_arg (q_end_date q) = sp_arg (q_end_date q')"
    and "limit_param q = limit_param q'"
  shows "catalog_call d cfg q w = catalog_call d cfg q' w"
  unfolding catalog_call_def assms ..

lemma get_ui_data_args:
  "catalog_call d cfg q w = catalog_call d cfg q' w \<Longrightarrow>
     get_ui_data d cfg q w = get_ui_data d cfg q' w"
  by (simp add: get_ui_data_def)

lemma get_ui_data_file_args:
  assumes "catalog_call d cfg q w = catalog_call d cfg q' w"
    and "file_name_param q = file_name_param q'"
  shows "get_ui_data_file d cfg q w = get_ui_data_file d cfg q' w"
  unfolding get_ui_data_file_def file_try_def file_path_def assms ..

lemma sp_arg_blank: "sp_arg (Some []) = sp_arg None"
  by (simp add: sp_arg_def)

lemma ui_data_same:
  assumes "sp_arg (q_grid_type q) = sp_arg (q_grid_type q')"
    and "sp_arg (q_event_type q) = sp_arg (q_event_type q')"
    and "sp_arg (q_instance_name q) = sp_arg (q_instance_name q')"
    and "sp_arg (q_run_date q) = sp_arg (q_run_date q')"
    and "sp_arg (q_end_date q) = sp_arg (q_end_date q')"
    and "limit_param q = limit_param q'"
  shows "get_ui_data d cfg q w = get_ui_data d cfg q' w"
  by (rule get_ui_data_args, rule catalog_call_args) (rule assms)+

lemma ui_data_file_same:
  assumes "sp_arg (q_grid_type q) = sp_arg (q_grid_type q')"
    and "sp_arg (q_event_type q) = sp_arg (q_event_type q')"
    and "sp_arg (q_instance_name q) = sp_arg (q_instance_name q')"
    and "sp_arg (q_run_date q) = sp_arg (q_run_date q')"
    and "sp_arg (q_end_date q) = sp_arg (q_end_date q')"
    and "limit_param q = limit_param q'"
    and "file_name_param q = file_name_param q'"
  shows "get_ui_data_file d cfg q w = get_ui_data_file d cfg q' w"
  by (rule get_ui_data_file_args, rule catalog_call_args) (rule assms)+

text \<open>
  Claim C10. On both endpoints a filter parameter given as the empty string is treated as
  one that is left out: both become the literal \<open>null\<close> of the stored procedure call, and
  the two requests have the same outcome (the same statement text, hence the same response,
  world and trace), for each of the five filters.
\<close>

theorem blank_filter_is_omitted:
  "get_ui_data d cfg (q\<lparr>q_grid_type := Some []\<rparr>) w = get_ui_data d cfg (q\<lparr>q_grid_type := None\<rparr>) w \<and>
   get_ui_data d cfg (q\<lparr>q_event_type := Some []\<rparr>) w = get_ui_data d cfg (q\<lparr>q_event_type := None\<rparr>) w \<and>
   get_ui_data d cfg (q\<lparr>q_instance_name := Some []\<rparr>) w
     = get_ui_data d cfg (q\<lparr>q_instance_name := None\<rparr>) w \<and>
   get_ui_data d cfg (q\<lparr>q_run_date := Some []\<rparr>) w = get_ui_data d cfg (q\<lparr>q_run_date := None\<rparr>) w \<and>
   get_ui_data d cfg (q\<lparr>q_end_date := Some []\<rparr>) w = get_ui_data d cfg (q\<lparr>q_end_date := None\<rparr>) w \<and>
   get_ui_data_file d cfg (q\<lparr>q_grid_type := Some []\<rparr>) w
     = get_ui_data_file d cfg (q\<lparr>q_grid_type := None\<rparr>) w \<and>
   get_ui_data_file d cfg (q\<lparr>q_event_type := Some []\<rparr>) w
     = get_ui_data_file d cfg (q\<lparr>q_event_type := None\<rparr>) w \<and>
   get_ui_data_file d cfg (q\<lparr>q_instance_name := Some []\<rparr>) w
     = get_ui_data_file d cfg (q\<lparr>q_instance_name := None\<rparr>) w \<and>
   get_ui_data_file d cfg (q\<lparr>q_run_date := Some []\<rparr>) w
     = get_ui_data_file d cfg (q\<lparr>q_run_date := None\<rparr>) w \<and>
   get_ui_data_file d cfg (q\<lparr>q_end_date := Some []\<rparr>) w
     = get_ui_data_file d cfg (q\<lparr>q_end_date := None\<rparr>) w \<and>
   sp_arg (Some []) = ''null'' \<and> sp_arg None = ''null''"
proof (intro conjI)
  show "sp_arg (Some []) = ''null''" "sp_arg None = ''null''" by (simp_all add: sp_arg_def)
qed ((rule ui_data_same ui_data_file_same;
      simp add: sp_arg_blank limit_param_def file_name_param_def)+)

section \<open>The catalog query builder\<close>

lemma sim_connect_any:
  assumes "conn s = None" "sim_down (world s) = 0"
    and "sim_version (world s) = Some [PyStr ''PostgreSQL 14.5'']"
  shows "get_db_connection sim_driver s =
     Some (Inr (), s\<lparr>conn := Some 1, cursor := Some 1,
                     trace := trace s @ [EvConnect (conn_str s) (Inr 1),
                        EvAutocommit 1 (auto_commit s) (Inr ()), EvCursor 1 (Inr 1),
                        EvExecute 1 version_sql (Inr ()),
                        EvFetchone 1 (Inr (Some [PyStr ''PostgreSQL 14.5'']))]\<rparr>)"
proof (rule get_db_connection_first)
  show "loop_body sim_driver s =
     (Inr Return, s\<lparr>conn := Some 1, cursor := Some 1,
                     trace := trace s @ [EvConnect (conn_str s) (Inr 1),
                        EvAutocommit 1 (auto_commit s) (Inr ()), EvCursor 1 (Inr 1),
                        EvExecute 1 version_sql (Inr ()),
                        EvFetchone 1 (Inr (Some [PyStr ''PostgreSQL 14.5'']))]\<rparr>)"
    using assms
    by (simp add: loop_body_def check_db_connection_def check_try_def connect_try_def call_def
        sim_driver_def truthy_def)
qed

lemma terria_not_version: "terria_sql g e i r en l \<noteq> version_sql"
  by (simp add: terria_sql_def version_sql_def)

lemma sim_exec_rows:
  assumes "sim_down w = 0" "sim_version w = Some [PyStr ''PostgreSQL 14.5'']"
    and "sim_reply w = Inr rows" "sim_fetch_error w = None" "q \<noteq> version_sql"
  shows "exec_sql sim_driver q True (new_pg w) =
     Some (Inr (if length rows = 0 then PyInt (- 1) else PyList (map PyTuple rows)),
           (sim_connected w)\<lparr>trace := trace (sim_connected w)
              @ [EvExecute 1 q (Inr ()), EvFetchall 1 (Inr rows)]\<rparr>)"
proof -
  have c: "cursor (sim_connected w) = Some 1" by (simp add: sim_connected_def)
  have x: "drv_execute sim_driver 1 q (world (sim_connected w)) = (Inr (), w)"
    using assms by (simp add: sim_driver_def sim_connected_def)
  have f: "drv_fetchall sim_driver 1 w = (Inr rows, w)"
    using assms by (simp add: sim_driver_def)
  show ?thesis
    unfolding sim_exec_sql [OF assms(1,2)] exec_try_fetchall_rows [OF c x f]
    by (simp add: sim_connected_def)
qed

lemma sim_exec_error:
  assumes "sim_down w = 0" "sim_version w = Some [PyStr ''PostgreSQL 14.5'']"
    and "sim_reply w = Inl e" "q \<noteq> version_sql"
  shows "exec_sql sim_driver q sel (new_pg w) =
     Some (Inr (PyInt (- 2)),
           (sim_connected w)\<lparr>trace := trace (sim_connected w)
              @ [EvExecute 1 q (Inl e), LogError (exec_error_msg q e)]\<rparr>)"
proof -
  have c: "cursor (sim_connected w) = Some 1" by (simp add: sim_connected_def)
  have x: "drv_execute sim_driver 1 q (world (sim_connected w)) = (Inl e, w)"
    using assms by (simp add: sim_driver_def sim_connected_def)
  show ?thesis
    unfolding sim_exec_sql [OF assms(1,2)] exec_try_execute_raises [OF c x]
    by (simp add: sim_connected_def log_error_def)
qed

lemma get_terria_unfold:
  "exec_sql d (terria_sql g e i r en l) True s = Some (x, s') \<Longrightarrow>
     get_terria_map_catalog_data d g e i r en l s =
       Some (case x of
               Inl ex \<Rightarrow> Inl ex
             | Inr v \<Rightarrow> (case subscript0 v of Inl ex \<Rightarrow> Inl ex | Inr v0 \<Rightarrow> subscript0 v0), s')"
  by (simp add: get_terria_map_catalog_data_def seq_def split: sum.splits)

text \<open>
  Claim C1, as the code has it. When \<^verbatim>\<open>exec_sql\<close> gives an integer (the sentinels
  \<open>-1\<close> and \<open>-2\<close> are the only ones it gives), \<^verbatim>\<open>get_terria_map_catalog_data\<close> does
  not return it: subscripting the integer raises a TypeError, which reaches the caller.
  When \<^verbatim>\<open>exec_sql\<close> gives rows and the first row has a column, the first column of the
  first row is returned.
\<close>

theorem catalog_data_first_column_or_raises:
  "(exec_sql d (terria_sql g e i r en l) True s = Some (Inr (PyInt n), s') \<longrightarrow>
      get_terria_map_catalog_data d g e i r en l s =
        Some (Inl (TypeError '''int' object is not subscriptable''), s')) \<and>
   (exec_sql d (terria_sql g e i r en l) True s = Some (Inr (PyList (PyTuple (v # vs) # rows)), s') \<longrightarrow>
      get_terria_map_catalog_data d g e i r en l s = Some (Inr v, s'))"
  by (simp add: get_terria_unfold)

theorem catalog_data_first_column_or_raises_witness:
  "get_terria_map_catalog_data sim_driver ''null'' ''null'' ''null'' ''null'' ''null'' 4
       (new_pg (sim_world 0 (Inr []))) =
     Some (Inl (TypeError '''int' object is not subscriptable''),
           (sim_connected (sim_world 0 (Inr [])))
             \<lparr>trace := trace (sim_connected (sim_world 0 (Inr [])))
                @ [EvExecute 1 (terria_sql ''null'' ''null'' ''null'' ''null'' ''null'' 4) (Inr ()),
                   EvFetchall 1 (Inr [])]\<rparr>)
   \<and> get_terria_map_catalog_data sim_driver ''null'' ''null'' ''null'' ''null'' ''null'' 4
       (new_pg (sim_world 0 (Inr [[PyStr ''{}'']]))) =
     Some (Inr (PyStr ''{}''),
           (sim_connected (sim_world 0 (Inr [[PyStr ''{}'']])))
             \<lparr>trace := trace (sim_connected (sim_world 0 (Inr [[PyStr ''{}'']])))
                @ [EvExecute 1 (terria_sql ''null'' ''null'' ''null'' ''null'' ''null'' 4) (Inr ()),
                   EvFetchall 1 (Inr [[PyStr ''{}'']])]\<rparr>)"
proof -
  have a: "exec_sql sim_driver (terria_sql ''null'' ''null'' ''null'' ''null'' ''null'' 4) True
       (new_pg (sim_world 0 (Inr []))) =
     Some (Inr (PyInt (- 1)),
           (sim_connected (sim_world 0 (Inr [])))
             \<lparr>trace := trace (sim_connected (sim_world 0 (Inr [])))
                @ [EvExecute 1 (terria_sql ''null'' ''null'' ''null'' ''null'' ''null'' 4) (Inr ()),
                   EvFetchall 1 (Inr [])]\<rparr>)"
    using sim_exec_rows [of "sim_world 0 (Inr [])" "[]", OF _ _ _ _ terria_not_version]
    by (simp add: sim_world_def)
  have b: "exec_sql sim_driver (terria_sql ''null'' ''null'' ''null'' ''null'' ''null'' 4) True
       (new_pg (sim_world 0 (Inr [[PyStr ''{}'']]))) =
     Some (Inr (PyList (PyTuple (PyStr ''{}'' # []) # [])),
           (sim_connected (sim_world 0 (Inr [[PyStr ''{}'']])))
             \<lparr>trace := trace (sim_connected (sim_world 0 (Inr [[PyStr ''{}'']])))
                @ [EvExecute 1 (terria_sql ''null'' ''null'' ''null'' ''null'' ''null'' 4) (Inr ()),
                   EvFetchall 1 (Inr [[PyStr ''{}'']])]\<rparr>)"
    using sim_exec_rows [of "sim_world 0 (Inr [[PyStr ''{}'']])" "[[PyStr ''{}'']]",
        OF _ _ _ _ terria_not_version]
    by (simp add: sim_world_def)
  from catalog_data_first_column_or_raises
         [of sim_driver "''null''" "''null''" "''null''" "''null''" "''null''" 4
             "new_pg (sim_world 0 (Inr []))" "- 1"] a
       catalog_data_first_column_or_raises
         [of sim_driver "''null''" "''null''" "''null''" "''null''" "''null''" 4
             "new_pg (sim_world 0 (Inr [[PyStr ''{}'']]))" _ _ "PyStr ''{}''" "[]" "[]"] b
  show ?thesis by blast
qed

text \<open>
  Claim C1 as the specification words it fails: on a database where the stored procedure
  call yields no row, \<^verbatim>\<open>exec_sql\<close> returns the sentinel \<open>-1\<close> and the builder does not
  return that sentinel.
\<close>

theorem catalog_data_sentinel_counterexample:
  "exec_sql sim_driver (terria_sql ''null'' ''null'' ''null'' ''null'' ''null'' 4) True
       (new_pg (sim_world 0 (Inr []))) =
     Some (Inr (PyInt (- 1)),
           (sim_connected (sim_world 0 (Inr [])))
             \<lparr>trace := trace (sim_connected (sim_world 0 (Inr [])))
                @ [EvExecute 1 (terria_sql ''null'' ''null'' ''null'' ''null'' ''null'' 4) (Inr ()),
                   EvFetchall 1 (Inr [])]\<rparr>)
   \<and> get_terria_map_catalog_data sim_driver ''null'' ''null'' ''null'' ''null'' ''null'' 4
       (new_pg (sim_world 0 (Inr []))) \<noteq>
     Some (Inr (PyInt (- 1)),
           (sim_connected (sim_world 0 (Inr [])))
             \<lparr>trace := trace (sim_connected (sim_world 0 (Inr [])))
                @ [EvExecute 1 (terria_sql ''null'' ''null'' ''null'' ''null'' ''null'' 4) (Inr ()),
                   EvFetchall 1 (Inr [])]\<rparr>)"
proof -
  have e: "exec_sql sim_driver (terria_sql ''null'' ''null'' ''null'' ''null'' ''null'' 4) True
       (new_pg (sim_world 0 (Inr []))) =
     Some (Inr (PyInt (- 1)),
           (sim_connected (sim_world 0 (Inr [])))
             \<lparr>trace := trace (sim_connected (sim_world 0 (Inr [])))
                @ [EvExecute 1 (terria_sql ''null'' ''null'' ''null'' ''null'' ''null'' 4) (Inr ()),
                   EvFetchall 1 (Inr [])]\<rparr>)"
    using sim_exec_rows [of "sim_world 0 (Inr [])" "[]", OF _ _ _ _ terria_not_version]
    by (simp add: sim_world_def)
  show ?thesis
    unfolding get_terria_unfold [OF e] using e by simp
qed

section \<open>The health check and the teardown\<close>

text \<open>
  Claim C4, at the input where the code leaves it: with a connection and a cursor, a
  round trip that raises nothing and a \<^verbatim>\<open>fetchone\<close> that gives no row,
  \<^verbatim>\<open>check_db_connection\<close> returns \<^verbatim>\<open>None\<close>, which is not a boolean. (The lemma
  \<open>check_cases\<close> above gives the result in every case: \<open>False\<close> without a connection or
  a cursor and after any exception, \<open>True\<close> exactly when a row that is true in Python is
  fetched.)
\<close>

theorem check_db_connection_returns_None:
  "fst (check_db_connection sim_driver (sim_connected no_version)) = Inr None"
  by (simp add: check_db_connection_def check_try_def call_def sim_driver_def sim_connected_def
      no_version_def)

lemma pg_del_never_raises: "fst (pg_del d s) = Inr ()"
  by (simp add: pg_del_def try_except_def split: prod.splits sum.splits)

lemma del_try_cursor_raises:
  "cursor s = Some c \<Longrightarrow> drv_close_cursor d c (world s) = (Inl e, w1) \<Longrightarrow>
     del_try d s = (Inl e, s\<lparr>world := w1, trace := trace s @ [EvCloseCursor c (Inl e)]\<rparr>)"
  by (simp add: del_try_def call_def)

lemma del_try_conn:
  "cursor s = Some c \<Longrightarrow> conn s = Some cn \<Longrightarrow>
   drv_close_cursor d c (world s) = (Inr (), w1) \<Longrightarrow> drv_close_conn d cn w1 = (r2, w2) \<Longrightarrow>
     del_try d s =
       (r2, s\<lparr>world := w2,
              trace := trace s @ [EvCloseCursor c (Inr ()), EvCloseConn cn r2]\<rparr>)"
  by (simp add: del_try_def call_def)

lemma del_try_cursor_only:
  "cursor s = Some c \<Longrightarrow> conn s = None \<Longrightarrow>
   drv_close_cursor d c (world s) = (Inr (), w1) \<Longrightarrow>
     del_try d s = (Inr (), s\<lparr>world := w1, trace := trace s @ [EvCloseCursor c (Inr ())]\<rparr>)"
  by (simp add: del_try_def call_def)

lemma del_try_conn_only:
  "cursor s = None \<Longrightarrow> conn s = Some cn \<Longrightarrow> drv_close_conn d cn (world s) = (r2, w2) \<Longrightarrow>
     del_try d s = (r2, s\<lparr>world := w2, trace := trace s @ [EvCloseConn cn r2]\<rparr>)"
  by (simp add: del_try_def call_def)

lemma del_try_nothing:
  "cursor s = None \<Longrightarrow> conn s = None \<Longrightarrow> del_try d s = (Inr (), s)"
  by (simp add: del_try_def)

text \<open>
  Claim C9. \<^verbatim>\<open>__del__\<close> never raises. It closes the cursor when there is one and then
  the connection when there is one; an exception of either close is caught and logged, and
  nothing else changes but the world and the trace. The conjuncts give the outcome in every
  case: with or without a cursor, with or without a connection, and for each close raising
  or not. (When closing the cursor raises, the connection is not closed; without a cursor
  the connection is closed all the same.)
\<close>

theorem pg_del_swallows_close_errors:
  "fst (pg_del d s) = Inr () \<and>
   (cursor s = Some c \<and> drv_close_cursor d c (world s) = (Inl e, w1) \<longrightarrow>
      snd (pg_del d s) =
        s\<lparr>world := w1,
          trace := trace s @ [EvCloseCursor c (Inl e), LogError (del_error_msg e)]\<rparr>) \<and>
   (cursor s = Some c \<and> conn s = Some cn \<and> drv_close_cursor d c (world s) = (Inr (), w1) \<and>
    drv_close_conn d cn w1 = (Inl e, w2) \<longrightarrow>
      snd (pg_del d s) =
        s\<lparr>world := w2,
          trace := trace s @ [EvCloseCursor c (Inr ()), EvCloseConn cn (Inl e),
                              LogError (del_error_msg e)]\<rparr>) \<and>
   (cursor s = Some c \<and> conn s = Some cn \<and> drv_close_cursor d c (world s) = (Inr (), w1) \<and>
    drv_close_conn d cn w1 = (Inr (), w2) \<longrightarrow>
      snd (pg_del d s) =
        s\<lparr>world := w2,
          trace := trace s @ [EvCloseCursor c (Inr ()), EvCloseConn cn (Inr ())]\<rparr>) \<and>
   (cursor s = Some c \<and> conn s = None \<and> drv_close_cursor d c (world s) = (Inr (), w1) \<longrightarrow>
      snd (pg_del d s) = s\<lparr>world := w1, trace := trace s @ [EvCloseCursor c (Inr ())]\<rparr>) \<and>
   (cursor s = None \<and> conn s = Some cn \<and> drv_close_conn d cn (world s) = (Inl e, w2) \<longrightarrow>
      snd (pg_del d s) =
        s\<lparr>world := w2,
          trace := trace s @ [EvCloseConn cn (Inl e), LogError (del_error_msg e)]\<rparr>) \<and>
   (cursor s = None \<and> conn s = Some cn \<and> drv_close_conn d cn (world s) = (Inr (), w2) \<longrightarrow>
      snd (pg_del d s) = s\<lparr>world := w2, trace := trace s @ [EvCloseConn cn (Inr ())]\<rparr>) \<and>
   (cursor s = None \<and> conn s = None \<longrightarrow> snd (pg_del d s) = s)"
  by (simp add: pg_del_never_raises)
     (simp add: pg_del_def del_try_cursor_raises del_try_conn del_try_cursor_only
        del_try_conn_only del_try_nothing log_error_def)

theorem pg_del_swallows_close_errors_witness:
  "snd (pg_del sim_driver (sim_connected close_fails)) =
     (sim_connected close_fails)
       \<lparr>world := close_fails,
        trace := trace (sim_connected close_fails)
          @ [EvCloseCursor 1 (Inl (DatabaseError ''cursor already closed'')),
             LogError ''Error detected closing cursor or connection. cursor already closed'']\<rparr>
   \<and> snd (pg_del sim_driver (sim_connected conn_close_fails)) =
     (sim_connected conn_close_fails)
       \<lparr>world := conn_close_fails,
        trace := trace (sim_connected conn_close_fails)
          @ [EvCloseCursor 1 (Inr ()),
             EvCloseConn 1 (Inl (DatabaseError ''connection already closed'')),
             LogError ''Error detected closing cursor or connection. connection already closed'']\<rparr>
   \<and> snd (pg_del sim_driver (sim_connected (sim_world 0 (Inr [])))) =
     (sim_connected (sim_world 0 (Inr [])))
       \<lparr>world := sim_world 0 (Inr []),
        trace := trace (sim_connected (sim_world 0 (Inr [])))
          @ [EvCloseCursor 1 (Inr ()), EvCloseConn 1 (Inr ())]\<rparr>
   \<and> fst (pg_del sim_driver (sim_connected close_fails)) = Inr ()
   \<and> snd (pg_del sim_driver ((sim_connected (sim_world 0 (Inr [])))\<lparr>conn := None\<rparr>)) =
     (sim_connected (sim_world 0 (Inr [])))
       \<lparr>conn := None, world := sim_world 0 (Inr []),
        trace := trace (sim_connected (sim_world 0 (Inr []))) @ [EvCloseCursor 1 (Inr ())]\<rparr>
   \<and> snd (pg_del sim_driver ((sim_connected conn_close_fails)\<lparr>cursor := None\<rparr>)) =
     (sim_connected conn_close_fails)
       \<lparr>cursor := None, world := conn_close_fails,
        trace := trace (sim_connected conn_close_fails)
          @ [EvCloseConn 1 (Inl (DatabaseError ''connection already closed'')),
             LogError ''Error detected closing cursor or connection. connection already closed'']\<rparr>
   \<and> snd (pg_del sim_driver ((sim_connected (sim_world 0 (Inr [])))\<lparr>cursor := None\<rparr>)) =
     (sim_connected (sim_world 0 (Inr [])))
       \<lparr>cursor := None, world := sim_world 0 (Inr []),
        trace := trace (sim_connected (sim_world 0 (Inr []))) @ [EvCloseConn 1 (Inr ())]\<rparr>
   \<and> snd (pg_del sim_driver (new_pg (sim_world 0 (Inr [])))) = new_pg (sim_world 0 (Inr []))"
proof -
  let ?w = "sim_world 0 (Inr [])"
  have a: "cursor (sim_connected close_fails) = Some 1
      \<and> drv_close_cursor sim_driver 1 (world (sim_connected close_fails))
          = (Inl (DatabaseError ''cursor already closed''), close_fails)"
    by (simp add: sim_connected_def sim_driver_def close_fails_def)
  have b: "cursor (sim_connected conn_close_fails) = Some 1
      \<and> conn (sim_connected conn_close_fails) = Some 1
      \<and> drv_close_cursor sim_driver 1 (world (sim_connected conn_close_fails))
          = (Inr (), conn_close_fails)
      \<and> drv_close_conn sim_driver 1 conn_close_fails
          = (Inl (DatabaseError ''connection already closed''), conn_close_fails)"
    by (simp add: sim_connected_def sim_driver_def conn_close_fails_def sim_world_def)
  have c: "cursor (sim_connected ?w) = Some 1 \<and> conn (sim_connected ?w) = Some 1
      \<and> drv_close_cursor sim_driver 1 (world (sim_connected ?w)) = (Inr (), ?w)
      \<and> drv_close_conn sim_driver 1 ?w = (Inr (), ?w)"
    by (simp add: sim_connected_def sim_driver_def sim_world_def)
  have f: "cursor ((sim_connected ?w)\<lparr>conn := None\<rparr>) = Some 1
      \<and> conn ((sim_connected ?w)\<lparr>conn := None\<rparr>) = None
      \<and> drv_close_cursor sim_driver 1 (world ((sim_connected ?w)\<lparr>conn := None\<rparr>)) = (Inr (), ?w)"
    by (simp add: sim_connected_def sim_driver_def sim_world_def)
  have g: "cursor ((sim_connected conn_close_fails)\<lparr>cursor := None\<rparr>) = None
      \<and> conn ((sim_connected conn_close_fails)\<lparr>cursor := None\<rparr>) = Some 1
      \<and> drv_close_conn sim_driver 1 (world ((sim_connected conn_close_fails)\<lparr>cursor := None\<rparr>))
          = (Inl (DatabaseError ''connection already closed''), conn_close_fails)"
    by (simp add: sim_connected_def sim_driver_def conn_close_fails_def sim_world_def)
  have h: "cursor ((sim_connected ?w)\<lparr>cursor := None\<rparr>) = None
      \<and> conn ((sim_connected ?w)\<lparr>cursor := None\<rparr>) = Some 1
      \<and> drv_close_conn sim_driver 1 (world ((sim_connected ?w)\<lparr>cursor := None\<rparr>)) = (Inr (), ?w)"
    by (simp add: sim_connected_def sim_driver_def sim_world_def)
  have k: "cursor (new_pg ?w) = None \<and> conn (new_pg ?w) = None"
    by (simp add: new_pg_def)
  from pg_del_swallows_close_errors
         [where d = sim_driver and s = "sim_connected close_fails" and c = 1
            and e = "DatabaseError ''cursor already closed''" and ?w1.0 = close_fails] a
  have A: "snd (pg_del sim_driver (sim_connected close_fails)) =
     (sim_connected close_fails)
       \<lparr>world := close_fails,
        trace := trace (sim_connected close_fails)
          @ [EvCloseCursor 1 (Inl (DatabaseError ''cursor already closed'')),
             LogError (del_error_msg (DatabaseError ''cursor already closed''))]\<rparr>"
    and D: "fst (pg_del sim_driver (sim_connected close_fails)) = Inr ()"
    by blast+
  from pg_del_swallows_close_errors
         [where d = sim_driver and s = "sim_connected conn_close_fails" and c = 1 and cn = 1
            and e = "DatabaseError ''connection already closed''"
            and ?w1.0 = conn_close_fails and ?w2.0 = conn_close_fails] b
  have B: "snd (pg_del sim_driver (sim_connected conn_close_fails)) =
     (sim_connected conn_close_fails)
       \<lparr>world := conn_close_fails,
        trace := trace (sim_connected conn_close_fails)
          @ [EvCloseCursor 1 (Inr ()),
             EvCloseConn 1 (Inl (DatabaseError ''connection already closed'')),
             LogError (del_error_msg (DatabaseError ''connection already closed''))]\<rparr>"
    by blast
  from pg_del_swallows_close_errors
         [where d = sim_driver and s = "sim_connected ?w" and c = 1
            and cn = 1 and ?w1.0 = ?w and ?w2.0 = ?w] c
  have C: "snd (pg_del sim_driver (sim_connected ?w)) =
     (sim_connected ?w)
       \<lparr>world := ?w,
        trace := trace (sim_connected ?w) @ [EvCloseCursor 1 (Inr ()), EvCloseConn 1 (Inr ())]\<rparr>"
    by blast
  from pg_del_swallows_close_errors
         [where d = sim_driver and s = "(sim_connected ?w)\<lparr>conn := None\<rparr>" and c = 1
            and ?w1.0 = ?w] f
  have F: "snd (pg_del sim_driver ((sim_connected ?w)\<lparr>conn := None\<rparr>)) =
     (sim_connected ?w)\<lparr>conn := None\<rparr>
       \<lparr>world := ?w,
        trace := trace ((sim_connected ?w)\<lparr>conn := None\<rparr>) @ [EvCloseCursor 1 (Inr ())]\<rparr>"
    by blast
  from pg_del_swallows_close_errors
         [where d = sim_driver and s = "(sim_connected conn_close_fails)\<lparr>cursor := None\<rparr>"
            and cn = 1 and e = "DatabaseError ''connection already closed''"
            and ?w2.0 = conn_close_fails] g
  have G: "snd (pg_del sim_driver ((sim_connected conn_close_fails)\<lparr>cursor := None\<rparr>)) =
     (sim_connected conn_close_fails)\<lparr>cursor := None\<rparr>
       \<lparr>world := conn_close_fails,
        trace := trace ((sim_connected conn_close_fails)\<lparr>cursor := None\<rparr>)
          @ [EvCloseConn 1 (Inl (DatabaseError ''connection already closed'')),
             LogError (del_error_msg (DatabaseError ''connection already closed''))]\<rparr>"
    by blast
  from pg_del_swallows_close_errors
         [where d = sim_driver and s = "(sim_connected ?w)\<lparr>cursor := None\<rparr>"
            and cn = 1 and ?w2.0 = ?w] h
  have H: "snd (pg_del sim_driver ((sim_connected ?w)\<lparr>cursor := None\<rparr>)) =
     (sim_connected ?w)\<lparr>cursor := None\<rparr>
       \<lparr>world := ?w,
        trace := trace ((sim_connected ?w)\<lparr>cursor := None\<rparr>) @ [EvCloseConn 1 (Inr ())]\<rparr>"
    by blast
  from pg_del_swallows_close_errors [where d = sim_driver and s = "new_pg ?w"] k
  have K: "snd (pg_del sim_driver (new_pg ?w)) = new_pg ?w" by blast
  from A B C D F G H K show ?thesis by (simp add: del_error_msg_def)
qed

section \<open>Ensure-Connected\<close>









section \<open>The endpoints on the simulated database\<close>

lemma sim_recheck:
  assumes "conn s = Some cn" "cursor s = Some c"
    and "sim_version (world s) = Some [PyStr ''PostgreSQL 14.5'']"
  shows "get_db_connection sim_driver s =
     Some (Inr (), s\<lparr>trace := trace s @ [EvExecute c version_sql (Inr ()),
                        EvFetchone c (Inr (Some [PyStr ''PostgreSQL 14.5'']))]\<rparr>)"
proof (rule get_db_connection_first)
  show "loop_body sim_driver s =
     (Inr Return, s\<lparr>trace := trace s @ [EvExecute c version_sql (Inr ()),
                        EvFetchone c (Inr (Some [PyStr ''PostgreSQL 14.5'']))]\<rparr>)"
    using assms
    by (simp add: loop_body_def check_db_connection_def check_try_def connect_try_def call_def
        sim_driver_def truthy_def)
qed

lemma terria_sql_nulls:
  "terria_sql ''null'' ''null'' ''null'' ''null'' ''null'' 4 = null_call"
  by (simp add: terria_sql_def str_int_def digits.simps null_call_def)

lemma null_call_not_version: "null_call \<noteq> version_sql"
  by (simp add: null_call_def version_sql_def)

text \<open>
  Claim C7, at an input where the code leaves it. The stored procedure call raises, so
  \<^verbatim>\<open>exec_sql\<close> returns \<open>-2\<close>, subscripting it raises, and the handler's
  \<^verbatim>\<open>except\<close> branch logs the exception and sets \<open>status_code\<close> to 500. The response
  that is returned is the file download of the file an earlier request left, with the
  status 200: the \<^verbatim>\<open>FileResponse\<close> of line 161 is built without the status code.
\<close>

theorem get_ui_data_file_failure_has_status_200:
  "get_ui_data_file sim_driver sim_cfg no_filters stale_file =
     Some (\<lparr>fr_path = ''/app/src/apsviz.json'', fr_filename = ''apsviz.json'',
            fr_media_type = ''text/json'', fr_status_code = 200\<rparr>,
           stale_file,
           [EvInitLogging (Inr ()),
            EvConnect sim_conn_str (Inr 1), EvAutocommit 1 True (Inr ()), EvCursor 1 (Inr 1),
            EvExecute 1 version_sql (Inr ()),
            EvFetchone 1 (Inr (Some [PyStr ''PostgreSQL 14.5''])),
            EvExecute 1 version_sql (Inr ()),
            EvFetchone 1 (Inr (Some [PyStr ''PostgreSQL 14.5''])),
            EvExecute 1 null_call (Inl (DatabaseError ''function does not exist'')),
            LogError (exec_error_msg null_call (DatabaseError ''function does not exist'')),
            LogException '''int' object is not subscriptable''])"
proof -
  let ?s0 = "\<lparr>conn_str = sim_conn_str, conn = None, cursor = None, auto_commit = True,
              world = stale_file, trace = [EvInitLogging (Inr ())]\<rparr>"
  let ?s1 = "?s0\<lparr>conn := Some 1, cursor := Some 1,
                trace := trace ?s0 @ [EvConnect (conn_str ?s0) (Inr 1),
                        EvAutocommit 1 (auto_commit ?s0) (Inr ()), EvCursor 1 (Inr 1),
                        EvExecute 1 version_sql (Inr ()),
                        EvFetchone 1 (Inr (Some [PyStr ''PostgreSQL 14.5'']))]\<rparr>"
  let ?s2 = "?s1\<lparr>trace := trace ?s1 @ [EvExecute 1 version_sql (Inr ()),
                        EvFetchone 1 (Inr (Some [PyStr ''PostgreSQL 14.5'']))]\<rparr>"
  have g0: "get_db_connection sim_driver ?s0 = Some (Inr (), ?s1)"
    by (rule sim_connect_any) (simp_all add: stale_file_def sim_world_def)
  have i: "pg_init sim_driver (asgs_db_host sim_cfg) (asgs_db_port sim_cfg)
             (apsviz_dbname sim_cfg) (apsviz_username sim_cfg) (apsviz_password sim_cfg)
             True stale_file [] = Some (Inr (), ?s1)"
    unfolding g0 [symmetric]
    by (simp add: pg_init_def call_def sim_cfg_def sim_conn_str_def sim_driver_def)
  have g1: "get_db_connection sim_driver ?s1 = Some (Inr (), ?s2)"
    by (rule sim_recheck [where cn = 1]) (simp_all add: stale_file_def sim_world_def)
  have x: "exec_sql sim_driver null_call True ?s1 =
      Some (Inr (PyInt (- 2)),
            ?s2\<lparr>trace := trace ?s2
               @ [EvExecute 1 null_call (Inl (DatabaseError ''function does not exist'')),
                  LogError (exec_error_msg null_call (DatabaseError ''function does not exist''))]\<rparr>)"
    unfolding exec_sql_unfold [OF g1]
    using null_call_not_version
    by (simp add: exec_try_def call_def sim_driver_def stale_file_def sim_world_def log_error_def)
  have t: "get_terria_map_catalog_data sim_driver ''null'' ''null'' ''null'' ''null'' ''null'' 4 ?s1 =
      Some (Inl (TypeError '''int' object is not subscriptable''),
            ?s2\<lparr>trace := trace ?s2
               @ [EvExecute 1 null_call (Inl (DatabaseError ''function does not exist'')),
                  LogError (exec_error_msg null_call (DatabaseError ''function does not exist''))]\<rparr>)"
    using x unfolding terria_sql_nulls [symmetric] by (simp add: get_terria_unfold)
  have c: "catalog_call sim_driver sim_cfg no_filters stale_file =
      Some (Inl (TypeError '''int' object is not subscriptable''),
            ?s2\<lparr>trace := trace ?s2
               @ [EvExecute 1 null_call (Inl (DatabaseError ''function does not exist'')),
                  LogError (exec_error_msg null_call (DatabaseError ''function does not exist''))]\<rparr>)"
    unfolding catalog_call_def i using t
    by (simp add: no_filters_def sp_arg_def limit_param_def)
  show ?thesis
    unfolding get_ui_data_file_def file_try_def c
    by (simp add: FileResponse_def file_path_def file_name_param_def no_filters_def
        path_join_def sim_cfg_def)
qed

section \<open>The statements a request executes\<close>

lemma executed_append [simp]: "executed (a @ b) = executed a @ executed b"
  by (simp add: executed_def)

lemma executed_Nil [simp]: "executed [] = []"
  by (simp add: executed_def)

lemma executed_Cons [simp]: "executed (ev # tr) = stmt_of ev @ executed tr"
  by (simp add: executed_def)

lemma only_adds_refl [simp]: "only_adds_checks s s"
  by (auto simp: only_adds_checks_def)

lemma only_adds_trans:
  "only_adds_checks s s1 \<Longrightarrow> only_adds_checks s1 s2 \<Longrightarrow> only_adds_checks s s2"
  by (auto simp: only_adds_checks_def)

lemma check_only_adds:
  assumes "check_db_connection d s = (r, s')"
  shows "only_adds_checks s s'"
  using check_cases [OF assms] by (auto simp: only_adds_checks_def)

lemma connect_try_only_adds:
  assumes "connect_try d g s = (r, s')"
  shows "only_adds_checks s s'"
proof (cases "truthy g")
  case True
  with assms show ?thesis by (simp add: connect_try_def)
next
  case False
  obtain r1 w1 where c1: "drv_connect d (conn_str s) (world s) = (r1, w1)"
    by (cases "drv_connect d (conn_str s) (world s)") auto
  show ?thesis
  proof (cases r1)
    case (Inl e)
    with assms False c1 show ?thesis
      by (auto simp: connect_try_def call_def only_adds_checks_def)
  next
    case (Inr cn)
    obtain r2 w2 where c2: "drv_set_autocommit d cn (auto_commit s) w1 = (r2, w2)"
      by (cases "drv_set_autocommit d cn (auto_commit s) w1") auto
    show ?thesis
    proof (cases r2)
      case (Inl e)
      with assms False c1 c2 Inr show ?thesis
        by (auto simp: connect_try_def call_def only_adds_checks_def)
    next
      case r2: (Inr u)
      obtain r3 w3 where c3: "drv_cursor d cn w2 = (r3, w3)"
        by (cases "drv_cursor d cn w2") auto
      show ?thesis
      proof (cases r3)
        case (Inl e)
        with assms False c1 c2 c3 Inr r2 show ?thesis
          by (auto simp: connect_try_def call_def only_adds_checks_def)
      next
        case r3: (Inr c)
        let ?s3 = "s\<lparr>conn := Some cn, world := w3,
                     trace := trace s @ [EvConnect (conn_str s) (Inr cn),
                        EvAutocommit cn (auto_commit s) (Inr u), EvCursor cn (Inr c)],
                     cursor := Some c\<rparr>"
        obtain r4 s4 where c4: "check_db_connection d ?s3 = (r4, s4)"
          by (cases "check_db_connection d ?s3") auto
        have "connect_try d g s = seq (r4, s4) (\<lambda>good s4.
                (Inr (if truthy good then Return else Continue good), s4))"
          using False c1 c2 c3 Inr r2 r3 c4 by (simp add: connect_try_def call_def)
        with assms have s': "s' = s4" by (cases r4) simp_all
        from check_only_adds [OF c4] have "only_adds_checks ?s3 s4" .
        then show ?thesis unfolding s' by (simp add: only_adds_checks_def)
      qed
    qed
  qed
qed

lemma retry_notice_only_adds: "only_adds_checks s s' \<Longrightarrow> only_adds_checks s (retry_notice s')"
  by (simp add: only_adds_checks_def)

lemma loop_body_only_adds:
  assumes "loop_body d s = (r, s')"
  shows "only_adds_checks s s'"
proof -
  obtain good s1 where c1: "check_db_connection d s = (Inr good, s1)"
    using check_Inr [of d s] by (cases "check_db_connection d s") auto
  obtain r2 s2 where c2: "connect_try d good s1 = (r2, s2)"
    by (cases "connect_try d good s1") auto
  have k: "only_adds_checks s s2"
    by (rule only_adds_trans [OF check_only_adds [OF c1] connect_try_only_adds [OF c2]])
  from loop_body_eq [OF c1 c2] assms
  have "s' = s2 \<or> s' = retry_notice s2"
    by (auto split: sum.splits flow.splits)
  with k retry_notice_only_adds [OF k] show ?thesis by blast
qed

lemma conn_loop_only_adds:
  assumes "conn_loop d g s = Some y"
  shows "only_adds_checks s (snd y)"
proof (rule conn_loop.raw_induct
    [where P = "\<lambda>d g s y. only_adds_checks s (snd y)", OF _ assms])
  fix f :: "'a driver \<Rightarrow> bool option \<Rightarrow> 'a pgutils \<Rightarrow> ((exn + unit) \<times> 'a pgutils) option"
    and d g s y
  assume IH: "\<And>d g s y. f d g s = Some y \<Longrightarrow> only_adds_checks s (snd y)"
    and eq: "(if truthy g then Some (Inr (), s)
      else (case loop_body d s of
              (Inl e, s') \<Rightarrow> Some (Inl e, s')
            | (Inr Return, s') \<Rightarrow> Some (Inr (), s')
            | (Inr (Continue g), s') \<Rightarrow> f d g s')) = Some y"
  show "only_adds_checks s (snd y)"
  proof (cases "truthy g")
    case True
    with eq show ?thesis by auto
  next
    case False
    obtain r1 s1 where lb: "loop_body d s = (r1, s1)" by (cases "loop_body d s") auto
    note k = loop_body_only_adds [OF lb]
    from lb show ?thesis
    proof (cases rule: loop_body_split)
      case ret
      with eq False lb have "y = (Inr (), s1)" by simp
      with k show ?thesis by simp
    next
      case (cont g')
      with eq False lb have "f d g' s1 = Some y" by simp
      from only_adds_trans [OF k IH [OF this]] show ?thesis .
    qed
  qed
qed

lemma get_db_connection_only_adds:
  "get_db_connection d s = Some (r, s1) \<Longrightarrow> only_adds_checks s s1"
  using conn_loop_only_adds [of d "Some False" s "(r, s1)"] by (simp add: get_db_connection_def)

lemma exec_tail_executed:
  assumes "cursor s1 = Some c"
    and "try_except (exec_try d stmt sel s1)
           (\<lambda>e s2. (Inr (PyInt (- 2)), log_error (exec_error_msg stmt e) s2)) = (r, s')"
  shows "executed (trace s') = executed (trace s1) @ [stmt]"
  using assms
  unfolding exec_try_def call_def seq_def try_except_def log_error_def
  by (auto split: prod.splits sum.splits if_splits)

lemma exec_sql_executed:
  assumes "exec_sql d stmt sel s = Some (r, s')"
  shows "set (executed (trace s')) \<subseteq> {version_sql, stmt} \<union> set (executed (trace s))
         \<and> stmt \<in> set (executed (trace s'))"
proof -
  from exec_sql_Some [OF assms] obtain s1
    where g: "get_db_connection d s = Some (Inr (), s1)" and h: "healthy_at_return s1" by blast
  from healthy_cursor [OF h] obtain c where c: "cursor s1 = Some c" ..
  from assms exec_sql_unfold [OF g]
  have "try_except (exec_try d stmt sel s1)
           (\<lambda>e s2. (Inr (PyInt (- 2)), log_error (exec_error_msg stmt e) s2)) = (r, s')"
    by simp
  from exec_tail_executed [OF c this] get_db_connection_only_adds [OF g]
  show ?thesis by (auto simp: only_adds_checks_def)
qed

lemma pg_init_executed:
  assumes "pg_init d h p db u pw ac w [] = Some (r, s)"
  shows "set (executed (trace s)) \<subseteq> {version_sql}"
proof -
  let ?s0 = "\<lparr>conn_str = ''host='' @ opt_str h @ '' port='' @ opt_str p
                   @ '' dbname='' @ opt_str db @ '' user='' @ opt_str u
                   @ '' password='' @ opt_str pw,
                conn = None, cursor = None, auto_commit = ac, world = w, trace = []\<rparr>"
  obtain r1 s1 where c: "call (drv_init_logging d) EvInitLogging ?s0 = (r1, s1)"
    by (cases "call (drv_init_logging d) EvInitLogging ?s0") auto
  then have t: "executed (trace s1) = []"
    by (auto simp: call_def split: prod.splits)
  show ?thesis
  proof (cases r1)
    case (Inl e)
    with assms c have "s = s1" by (simp add: pg_init_def)
    with t show ?thesis by simp
  next
    case (Inr x)
    with assms c have "get_db_connection d s1 = Some (r, s)" by (simp add: pg_init_def)
    from get_db_connection_only_adds [OF this] t show ?thesis
      by (simp add: only_adds_checks_def)
  qed
qed

lemma get_terria_executed:
  assumes "get_terria_map_catalog_data d g e i r en l s = Some (x, s')"
  shows "set (executed (trace s')) \<subseteq> {version_sql, terria_sql g e i r en l} \<union> set (executed (trace s))
         \<and> terria_sql g e i r en l \<in> set (executed (trace s'))"
proof (cases "exec_sql d (terria_sql g e i r en l) True s")
  case None
  with assms show ?thesis by (simp add: get_terria_map_catalog_data_def)
next
  case (Some y)
  obtain x0 s0 where y: "y = (x0, s0)" by (cases y)
  with Some have e: "exec_sql d (terria_sql g e i r en l) True s = Some (x0, s0)" by simp
  from assms get_terria_unfold [OF e] have "s' = s0" by simp
  with exec_sql_executed [OF e] show ?thesis by simp
qed

lemma catalog_call_executed:
  assumes "catalog_call d cfg q w = Some (x, s)"
  shows "set (executed (trace s)) \<subseteq>
           {version_sql,
            terria_sql (sp_arg (q_grid_type q)) (sp_arg (q_event_type q))
              (sp_arg (q_instance_name q)) (sp_arg (q_run_date q)) (sp_arg (q_end_date q))
              (limit_param q)}
         \<and> ((\<exists>v. x = Inr v) \<longrightarrow>
              terria_sql (sp_arg (q_grid_type q)) (sp_arg (q_event_type q))
                (sp_arg (q_instance_name q)) (sp_arg (q_run_date q)) (sp_arg (q_end_date q))
                (limit_param q) \<in> set (executed (trace s)))"
proof (cases "pg_init d (asgs_db_host cfg) (asgs_db_port cfg) (apsviz_dbname cfg)
             (apsviz_username cfg) (apsviz_password cfg) True w []")
  case None
  with assms show ?thesis by (simp add: catalog_call_def)
next
  case (Some y)
  obtain r0 s0 where y: "y = (r0, s0)" by (cases y)
  with Some have i: "pg_init d (asgs_db_host cfg) (asgs_db_port cfg) (apsviz_dbname cfg)
             (apsviz_username cfg) (apsviz_password cfg) True w [] = Some (r0, s0)" by simp
  note k = pg_init_executed [OF i]
  show ?thesis
  proof (cases r0)
    case (Inl e)
    with assms i have "x = Inl e" "s = s0" by (simp_all add: catalog_call_def)
    with k show ?thesis by auto
  next
    case (Inr u)
    with assms i have "get_terria_map_catalog_data d (sp_arg (q_grid_type q))
        (sp_arg (q_event_type q)) (sp_arg (q_instance_name q)) (sp_arg (q_run_date q))
        (sp_arg (q_end_date q)) (limit_param q) s0 = Some (x, s)"
      by (simp add: catalog_call_def)
    from get_terria_executed [OF this] k show ?thesis by auto
  qed
qed

lemma get_ui_data_cases:
  assumes "get_ui_data d cfg q w = Some (resp, w', tr)"
  shows "\<exists>x s. catalog_call d cfg q w = Some (x, s) \<and> executed tr = executed (trace s)
           \<and> (jr_status_code resp = 200 \<longrightarrow> (\<exists>v. x = Inr v))"
proof (cases "catalog_call d cfg q w")
  case None
  with assms show ?thesis by (simp add: get_ui_data_def)
next
  case (Some y)
  obtain x s where y: "y = (x, s)" by (cases y)
  show ?thesis
  proof (cases x)
    case (Inl e)
    with assms Some y show ?thesis by (auto simp: get_ui_data_def)
  next
    case (Inr v)
    with assms Some y show ?thesis by (auto simp: get_ui_data_def)
  qed
qed

text \<open>
  Claim C8. For a request to \<^verbatim>\<open>GET /get_ui_data\<close> that leaves out every filter and the
  limit, the only statements executed are the health check and the stored procedure call
  whose text has the literal \<open>null\<close> for each of the five filter arguments and \<open>4\<close> for
  the limit; and a response with status 200 has executed that call.
\<close>

theorem get_ui_data_without_filters_calls_with_nulls:
  assumes "q_grid_type q = None" and "q_event_type q = None" and "q_instance_name q = None"
    and "q_run_date q = None" and "q_end_date q = None" and "q_limit q = None"
    and "get_ui_data d cfg q w = Some (resp, w', tr)"
  shows "set (executed tr) \<subseteq> {version_sql, null_call}
         \<and> (jr_status_code resp = 200 \<longrightarrow> null_call \<in> set (executed tr))"
proof -
  have n: "terria_sql (sp_arg (q_grid_type q)) (sp_arg (q_event_type q))
              (sp_arg (q_instance_name q)) (sp_arg (q_run_date q)) (sp_arg (q_end_date q))
              (limit_param q) = null_call"
    using assms(1-6) by (simp add: sp_arg_def limit_param_def terria_sql_nulls)
  from get_ui_data_cases [OF assms(7)] obtain x s
    where c: "catalog_call d cfg q w = Some (x, s)" and t: "executed tr = executed (trace s)"
      and ok: "jr_status_code resp = 200 \<longrightarrow> (\<exists>v. x = Inr v)" by blast
  from catalog_call_executed [OF c] n t ok show ?thesis by simp
qed

lemma sim_get_ui_data:
  "get_ui_data sim_driver sim_cfg no_filters one_row =
     Some (\<lparr>jr_content = PyStr ''[]'', jr_status_code = 200,
            jr_media_type = ''application/json''\<rparr>, one_row, served_trace)"
proof -
  let ?s0 = "\<lparr>conn_str = sim_conn_str, conn = None, cursor = None, auto_commit = True,
              world = one_row, trace = [EvInitLogging (Inr ())]\<rparr>"
  let ?s1 = "?s0\<lparr>conn := Some 1, cursor := Some 1,
                trace := trace ?s0 @ [EvConnect (conn_str ?s0) (Inr 1),
                        EvAutocommit 1 (auto_commit ?s0) (Inr ()), EvCursor 1 (Inr 1),
                        EvExecute 1 version_sql (Inr ()),
                        EvFetchone 1 (Inr (Some [PyStr ''PostgreSQL 14.5'']))]\<rparr>"
  let ?s2 = "?s1\<lparr>trace := trace ?s1 @ [EvExecute 1 version_sql (Inr ()),
                        EvFetchone 1 (Inr (Some [PyStr ''PostgreSQL 14.5'']))]\<rparr>"
  let ?s3 = "?s2\<lparr>trace := trace ?s2
               @ [EvExecute 1 null_call (Inr ()), EvFetchall 1 (Inr [[PyStr ''[]'']])]\<rparr>"
  have g0: "get_db_connection sim_driver ?s0 = Some (Inr (), ?s1)"
    by (rule sim_connect_any) (simp_all add: one_row_def sim_world_def)
  have i: "pg_init sim_driver (asgs_db_host sim_cfg) (asgs_db_port sim_cfg)
             (apsviz_dbname sim_cfg) (apsviz_username sim_cfg) (apsviz_password sim_cfg)
             True one_row [] = Some (Inr (), ?s1)"
    unfolding g0 [symmetric]
    by (simp add: pg_init_def call_def sim_cfg_def sim_conn_str_def sim_driver_def)
  have g1: "get_db_connection sim_driver ?s1 = Some (Inr (), ?s2)"
    by (rule sim_recheck [where cn = 1]) (simp_all add: one_row_def sim_world_def)
  have x: "exec_sql sim_driver null_call True ?s1 =
      Some (Inr (PyList [PyTuple [PyStr ''[]'']]), ?s3)"
    unfolding exec_sql_unfold [OF g1]
    using null_call_not_version
    by (simp add: exec_try_def call_def sim_driver_def one_row_def sim_world_def)
  have t: "get_terria_map_catalog_data sim_driver ''null'' ''null'' ''null'' ''null'' ''null'' 4 ?s1 =
      Some (Inr (PyStr ''[]''), ?s3)"
    using x unfolding terria_sql_nulls [symmetric] by (simp add: get_terria_unfold)
  have c: "catalog_call sim_driver sim_cfg no_filters one_row = Some (Inr (PyStr ''[]''), ?s3)"
    unfolding catalog_call_def i using t
    by (simp add: no_filters_def sp_arg_def limit_param_def)
  show ?thesis
    unfolding get_ui_data_def c by (simp add: served_trace_def)
qed

theorem get_ui_data_without_filters_calls_with_nulls_witness:
  "get_ui_data sim_driver sim_cfg no_filters one_row =
     Some (\<lparr>jr_content = PyStr ''[]'', jr_status_code = 200,
            jr_media_type = ''application/json''\<rparr>, one_row, served_trace)
   \<and> set (executed served_trace) \<subseteq> {version_sql, null_call}
   \<and> null_call \<in> set (executed served_trace)"
proof -
  have f: "q_grid_type no_filters = None" "q_event_type no_filters = None"
    "q_instance_name no_filters = None" "q_run_date no_filters = None"
    "q_end_date no_filters = None" "q_limit no_filters = None"
    by (simp_all add: no_filters_def)
  from get_ui_data_without_filters_calls_with_nulls [OF f sim_get_ui_data] sim_get_ui_data
  show ?thesis by simp
qed

end
